theory Spec2Isabelle
  imports Complex_Main
begin

section \<open>Data model\<close>

text \<open>
  A shallow embedding of \<^verbatim>\<open>src/osgEarthFeatures/BuildGeometryFilter.cpp\<close>.
  Coordinates and colours are vectors of reals; counts and offsets are naturals.
\<close>

datatype Vec3 = Vec3 real real real

datatype Vec4f = Vec4f real real real real

type_synonym Matrixd = "real list"

type_synonym SpatialReference = string

datatype GeoInterp = GEOINTERP_GREAT_CIRCLE | GEOINTERP_RHUMB_LINE

subsection \<open>Feature geometry\<close>

datatype GeometryType =
  TYPE_UNKNOWN | TYPE_POINTSET | TYPE_LINESTRING | TYPE_RING | TYPE_POLYGON | TYPE_MULTI

text \<open>
  Modelled from the spec: the class \<^verbatim>\<open>Geometry\<close> and its subclasses are declared outside
  the source file. The spec gives the variants: point set, line string, ring, polygon
  (an outer ring and zero or more hole rings) and multi-geometry (a sequence of parts).
\<close>

datatype Geometry =
  PointSet "Vec3 list"
| LineString "Vec3 list"
| Ring "Vec3 list"
| Polygon "Vec3 list" "Vec3 list list"
| MultiGeometry "Geometry list"

text \<open>Modelled from the spec: \<^verbatim>\<open>Geometry::getType\<close>, the variant's tag.\<close>

fun getType :: "Geometry \<Rightarrow> GeometryType" where
  "getType (PointSet ps) = TYPE_POINTSET"
| "getType (LineString ps) = TYPE_LINESTRING"
| "getType (Ring ps) = TYPE_RING"
| "getType (Polygon ps hs) = TYPE_POLYGON"
| "getType (MultiGeometry gs) = TYPE_MULTI"

text \<open>
  Modelled from the spec: \<^verbatim>\<open>Geometry::asVector\<close>, the part's own points (for a polygon
  the outer ring's; a multi-geometry has none of its own).
\<close>

fun asVector :: "Geometry \<Rightarrow> Vec3 list" where
  "asVector (PointSet ps) = ps"
| "asVector (LineString ps) = ps"
| "asVector (Ring ps) = ps"
| "asVector (Polygon ps hs) = ps"
| "asVector (MultiGeometry gs) = []"

text \<open>Modelled from the spec: \<^verbatim>\<open>Geometry::size\<close>, the number of the part's own points.\<close>

definition geom_size :: "Geometry \<Rightarrow> nat" where
  "geom_size g = length (asVector g)"

text \<open>Modelled from the spec: \<^verbatim>\<open>Polygon::getHoles\<close>; only a polygon has holes.\<close>

fun getHoles :: "Geometry \<Rightarrow> Geometry list" where
  "getHoles (Polygon ps hs) = map Ring hs"
| "getHoles g = []"

text \<open>
  Modelled from the spec: \<^verbatim>\<open>Geometry::getTotalPointCount\<close>, the "total points" of a
  part: its own points and, for a polygon, those of its holes.
\<close>

fun getTotalPointCount :: "Geometry \<Rightarrow> nat" where
  "getTotalPointCount (PointSet ps) = length ps"
| "getTotalPointCount (LineString ps) = length ps"
| "getTotalPointCount (Ring ps) = length ps"
| "getTotalPointCount (Polygon ps hs) = length ps + sum_list (map length hs)"
| "getTotalPointCount (MultiGeometry gs) = sum_list (map getTotalPointCount gs)"

text \<open>
  Modelled from the spec: \<^verbatim>\<open>GeometryIterator(geom, false)\<close>. Iteration yields the
  non-multi leaf parts in depth-first order; polygon holes are not traversed.
\<close>

fun GeometryIterator :: "Geometry \<Rightarrow> Geometry list" where
  "GeometryIterator (MultiGeometry gs) = concat (map GeometryIterator gs)"
| "GeometryIterator g = [g]"

subsection \<open>Symbols and styles\<close>

text \<open>Modelled from the spec: width units are pixels or world units.\<close>

datatype Units = PIXELS | WORLD

text \<open>
  Modelled from the spec: the symbols are declared outside the source file. A line
  symbol has a stroke (color, optional width, width units) and an optional
  tessellation, where 0 means "do not subdivide"; a polygon symbol has a fill color;
  a point symbol has a fill color and an optional size.
\<close>

record Stroke =
  stroke_color :: Vec4f
  stroke_width :: "real option"
  stroke_widthUnits :: Units

record LineSymbol =
  line_stroke :: Stroke
  line_tessellation :: "nat option"

record PolygonSymbol =
  polygon_fill_color :: Vec4f

record PointSymbol =
  point_fill_color :: Vec4f
  point_size :: "real option"

text \<open>
  Modelled from the spec: a \<^verbatim>\<open>Style\<close> maps a symbol kind to a symbol instance. The three
  kinds the filter reads are fields; symbols of any other kind are kept by name.
\<close>

record Style =
  pointSymbol :: "PointSymbol option"
  lineSymbol :: "LineSymbol option"
  polygonSymbol :: "PolygonSymbol option"
  otherSymbols :: "string list"

text \<open>Modelled from the spec: \<^verbatim>\<open>Style::remove<LineSymbol>\<close> and \<^verbatim>\<open>Style::remove<PolygonSymbol>\<close>.\<close>

definition remove_LineSymbol :: "Style \<Rightarrow> Style" where
  "remove_LineSymbol s = s\<lparr>lineSymbol := None\<rparr>"

definition remove_PolygonSymbol :: "Style \<Rightarrow> Style" where
  "remove_PolygonSymbol s = s\<lparr>polygonSymbol := None\<rparr>"

text \<open>Modelled from the spec: a style is empty iff it has no symbols.\<close>

definition style_empty :: "Style \<Rightarrow> bool" where
  "style_empty s \<longleftrightarrow>
     pointSymbol s = None \<and> lineSymbol s = None \<and> polygonSymbol s = None \<and> otherSymbols s = []"

subsection \<open>Features and the filter context\<close>

text \<open>
  Modelled from the spec: a feature has a geometry, an optional style override and an
  optional geodetic-interpolation mode. The filter context tells whether the data is
  georeferenced, whether the map is geocentric, the spatial references of the
  features' extent and of the map, and whether there is a feature index.
\<close>

record Feature =
  feat_geometry :: Geometry
  feat_style :: "Style option"
  feat_geoInterp :: "GeoInterp option"

record FilterContext =
  ctx_isGeoreferenced :: bool
  ctx_isGeocentric :: bool
  ctx_extentSRS :: SpatialReference
  ctx_mapSRS :: SpatialReference
  ctx_featureIndex :: bool

subsection \<open>Draw geometries\<close>

text \<open>The primitive modes, primitive sets and bindings of the scene-graph library.\<close>

datatype GLenum = GL_POINTS | GL_LINE_STRIP | GL_LINE_LOOP | GL_TRIANGLES

datatype PrimitiveSet =
  DrawArrays GLenum nat nat
| DrawElements GLenum "nat list"

datatype AttributeBinding = BIND_OFF | BIND_OVERALL | BIND_PER_VERTEX

text \<open>
  An \<^verbatim>\<open>osg::Geometry\<close>. A fresh one has no vertex array (a null pointer) and no
  primitive sets. The two symbology fields are the render state that
  \<^verbatim>\<open>applyLineSymbology\<close> and \<^verbatim>\<open>applyPointSymbology\<close> derive from a symbol.
\<close>

record DrawGeom =
  dg_name :: string
  dg_useVertexBufferObjects :: bool
  dg_vertexArray :: "Vec3 list option"
  dg_primitiveSets :: "PrimitiveSet list"
  dg_colorArray :: "Vec4f list option"
  dg_colorBinding :: AttributeBinding
  dg_lineSymbology :: "LineSymbol option"
  dg_pointSymbology :: "PointSymbol option"
  dg_initialBound :: "(Vec3 \<times> Vec3) option"

definition new_Geometry :: DrawGeom where
  "new_Geometry =
     \<lparr>dg_name = [], dg_useVertexBufferObjects = False, dg_vertexArray = None,
      dg_primitiveSets = [], dg_colorArray = None, dg_colorBinding = BIND_OFF,
      dg_lineSymbology = None, dg_pointSymbology = None, dg_initialBound = None\<rparr>"

record Geode =
  drawables :: "DrawGeom list"
  geode_pointSize :: "real option"
  geode_lineWidth :: "real option"

definition new_Geode :: Geode where
  "new_Geode = \<lparr>drawables = [], geode_pointSize = None, geode_lineWidth = None\<rparr>"

datatype Node = MatrixTransform Matrixd Geode

datatype TessellationType = TESS_TYPE_GEOMETRY | TESS_TYPE_DRAWABLE | TESS_TYPE_POLYGONS

datatype WindingType =
  TESS_WINDING_ODD | TESS_WINDING_NONZERO | TESS_WINDING_POSITIVE
| TESS_WINDING_NEGATIVE | TESS_WINDING_ABS_GEQ_TWO

subsection \<open>Collaborators\<close>

text \<open>
  The operations the filter calls and does not define: the geometry validator
  (\<^verbatim>\<open>Geometry::isValid\<close>), the per-point reprojection and localization inside
  \<^verbatim>\<open>transformAndLocalize\<close>, the stroke polygonizer, the mesh subdivider, the
  tessellator, the feature-name expression evaluator, the localizer, and the
  consolidator with the vertex-cache optimizer. They are parameters of the model.
\<close>

record Collab =
  isValid :: "Geometry \<Rightarrow> bool"
  transformPoint ::
    "SpatialReference option \<Rightarrow> SpatialReference option \<Rightarrow> Matrixd \<Rightarrow> bool \<Rightarrow> Vec3 \<Rightarrow> Vec3"
  PolygonizeLinesOperator :: "Stroke \<Rightarrow> Vec3 list \<Rightarrow> DrawGeom"
  MeshSubdivider_run :: "Matrixd \<Rightarrow> Matrixd \<Rightarrow> DrawGeom \<Rightarrow> real \<Rightarrow> GeoInterp \<Rightarrow> DrawGeom"
  retessellatePolygons :: "TessellationType \<Rightarrow> WindingType \<Rightarrow> DrawGeom \<Rightarrow> DrawGeom"
  feature_eval :: "string \<Rightarrow> Feature \<Rightarrow> string"
  computeLocalizers :: "FilterContext \<Rightarrow> Matrixd \<times> Matrixd"
  MeshConsolidator_run :: "Geode \<Rightarrow> Geode"
  VertexCacheOptimizer :: "Geode \<Rightarrow> Geode"

text \<open>
  The calls to collaborators and the runs of \<^verbatim>\<open>process\<close>, in the order they happen.
  Each entry carries the arguments of the call; a run of \<^verbatim>\<open>process\<close> carries the
  filter's style at its entry and the feature list it was given.
\<close>

datatype Call =
  Call_process Style "Feature list"
| Call_Tessellator TessellationType WindingType DrawGeom
| Call_PolygonizeLines Stroke "Vec3 list"
| Call_MeshSubdivider DrawGeom real GeoInterp
| Call_tagPrimitiveSets DrawGeom

datatype error = NullDereference

subsection \<open>The filter\<close>

text \<open>
  The members of \<^verbatim>\<open>BuildGeometryFilter\<close> (the source's \<^verbatim>\<open>_style\<close> is \<open>m_style\<close>, and so
  on). \<open>m_geode\<close> is a reference that \<^verbatim>\<open>release\<close> makes null, \<open>m_result\<close> is null after
  \<^verbatim>\<open>reset\<close>. \<open>calls\<close> is not a member: it is the record of the calls made so far.
\<close>

record BuildGeometryFilter =
  m_style :: Style
  m_maxAngle_deg :: real
  m_geoInterp :: GeoInterp
  m_mergeGeometry :: bool
  m_useVertexBufferObjects :: bool
  m_featureNameExpr :: "string option"
  m_result :: "Node option"
  m_geode :: "Geode option"
  m_hasLines :: bool
  m_hasPoints :: bool
  m_hasPolygons :: bool
  m_world2local :: Matrixd
  m_local2world :: Matrixd
  calls :: "Call list"

section \<open>Operations\<close>

subsection \<open>Construction and reset\<close>

definition reset :: "BuildGeometryFilter \<Rightarrow> BuildGeometryFilter" where
  "reset flt =
     flt\<lparr>m_result := None, m_geode := Some new_Geode,
         m_hasLines := False, m_hasPoints := False, m_hasPolygons := False\<rparr>"

definition identity_matrix :: Matrixd where
  "identity_matrix = [1, 0, 0, 0, 0, 1, 0, 0, 0, 0, 1, 0, 0, 0, 0, 1]"

definition new_BuildGeometryFilter :: "Style \<Rightarrow> BuildGeometryFilter" where
  "new_BuildGeometryFilter style =
     reset \<lparr>m_style = style, m_maxAngle_deg = 1, m_geoInterp = GEOINTERP_RHUMB_LINE,
            m_mergeGeometry = False, m_useVertexBufferObjects = True,
            m_featureNameExpr = None, m_result = None, m_geode = None,
            m_hasLines = False, m_hasPoints = False, m_hasPolygons = False,
            m_world2local = identity_matrix, m_local2world = identity_matrix,
            calls = []\<rparr>"

subsection \<open>Helpers declared outside the source file\<close>

text \<open>
  Modelled from the spec: \<^verbatim>\<open>transformAndLocalize\<close> reprojects and localizes each input
  point and appends it to the output array. The per-point map is a collaborator.
\<close>

definition transformAndLocalize ::
  "Collab \<Rightarrow> Vec3 list \<Rightarrow> SpatialReference option \<Rightarrow> Vec3 list \<Rightarrow>
   SpatialReference option \<Rightarrow> Matrixd \<Rightarrow> bool \<Rightarrow> Vec3 list" where
  "transformAndLocalize C input inputSRS output outputSRS world2local toECEF =
     output @ map (transformPoint C inputSRS outputSRS world2local toECEF) input"

text \<open>
  Modelled from the spec: \<^verbatim>\<open>delocalize\<close> wraps the batch in the local-to-world
  transform.
\<close>

definition delocalize :: "Matrixd \<Rightarrow> Geode \<Rightarrow> Node" where
  "delocalize local2world geode = MatrixTransform local2world geode"

text \<open>
  \<^verbatim>\<open>osg::PI\<close> and \<^verbatim>\<open>osg::DegreesToRadians\<close> of the scene-graph library, over the
  reals: the constant is the library's decimal literal, and the rounding of the
  source's doubles is not modelled.
\<close>

definition osg_PI :: real where
  "osg_PI = 3.14159265358979323846"

definition DegreesToRadians :: "real \<Rightarrow> real" where
  "DegreesToRadians angle = angle * osg_PI / 180"

text \<open>\<^verbatim>\<open>optional<float>::value()\<close> of a stroke width; the unset width reads as 1.\<close>

definition width_value :: "Stroke \<Rightarrow> real" where
  "width_value s = (case stroke_width s of Some w \<Rightarrow> w | None \<Rightarrow> 1)"

subsection \<open>buildPolygon\<close>

text \<open>
  The loop over the holes (source lines 341 to 351). Its state is the shared vertex
  array, the draw geometry and the running offset.
\<close>

fun buildPolygon_holes ::
  "Collab \<Rightarrow> SpatialReference option \<Rightarrow> SpatialReference option \<Rightarrow> Matrixd \<Rightarrow> bool \<Rightarrow>
   Geometry list \<Rightarrow> Vec3 list \<times> DrawGeom \<times> nat \<Rightarrow> Vec3 list \<times> DrawGeom \<times> nat" where
  "buildPolygon_holes C featureSRS mapSRS w2l makeECEF [] st = st"
| "buildPolygon_holes C featureSRS mapSRS w2l makeECEF (hole # hs) (allPoints, osgGeom, offset) =
     (if isValid C hole then
        buildPolygon_holes C featureSRS mapSRS w2l makeECEF hs
          (transformAndLocalize C (asVector hole) featureSRS allPoints mapSRS w2l makeECEF,
           osgGeom\<lparr>dg_primitiveSets :=
             dg_primitiveSets osgGeom @ [DrawArrays GL_LINE_LOOP offset (geom_size hole)]\<rparr>,
           offset + geom_size hole)
      else buildPolygon_holes C featureSRS mapSRS w2l makeECEF hs (allPoints, osgGeom, offset))"

text \<open>
  \<^verbatim>\<open>buildPolygon\<close> (source lines 319 to 386) returns the draw geometry it was given,
  updated, and the calls it made. An invalid ring returns at once: the draw geometry
  keeps its null vertex array.
\<close>

definition buildPolygon ::
  "Collab \<Rightarrow> BuildGeometryFilter \<Rightarrow> Geometry \<Rightarrow> SpatialReference option \<Rightarrow>
   SpatialReference option \<Rightarrow> bool \<Rightarrow> bool \<Rightarrow> DrawGeom \<Rightarrow> DrawGeom \<times> Call list" where
  "buildPolygon C flt ring featureSRS mapSRS makeECEF tessellate osgGeom =
     (if \<not> isValid C ring then (osgGeom, [])
      else
        let allPoints = transformAndLocalize C (asVector ring) featureSRS [] mapSRS
                          (m_world2local flt) makeECEF;
            g1 = osgGeom\<lparr>dg_primitiveSets :=
                   dg_primitiveSets osgGeom @ [DrawArrays GL_LINE_LOOP 0 (geom_size ring)]\<rparr>;
            st = (if getType ring = TYPE_POLYGON
                  then buildPolygon_holes C featureSRS mapSRS (m_world2local flt) makeECEF
                         (getHoles ring) (allPoints, g1, geom_size ring)
                  else (allPoints, g1, geom_size ring));
            g2 = (fst (snd st))\<lparr>dg_vertexArray := Some (fst st)\<rparr>
        in if tessellate
           then (retessellatePolygons C TESS_TYPE_GEOMETRY TESS_WINDING_POSITIVE g2,
                 [Call_Tessellator TESS_TYPE_GEOMETRY TESS_WINDING_POSITIVE g2])
           else (g2, []))"

subsection \<open>process\<close>

text \<open>Render-type resolution (source lines 110 to 136).\<close>

definition resolveRenderType :: "Style \<Rightarrow> Geometry \<Rightarrow> GeometryType" where
  "resolveRenderType myStyle part =
     (if polygonSymbol myStyle \<noteq> None \<and> getType part \<noteq> TYPE_POINTSET \<and>
         getTotalPointCount part \<ge> 3
      then TYPE_POLYGON
      else if lineSymbol myStyle \<noteq> None
      then (if getType part = TYPE_POLYGON then TYPE_RING else getType part)
      else if pointSymbol myStyle \<noteq> None
      then TYPE_POINTSET
      else getType part)"

text \<open>The validation after resolution (source lines 138 to 142): True when the part is skipped.\<close>

definition belowMinimum :: "GeometryType \<Rightarrow> Geometry \<Rightarrow> bool" where
  "belowMinimum renderType part =
     (if renderType = TYPE_POLYGON \<and> geom_size part < 3 then True
      else if (renderType = TYPE_LINESTRING \<or> renderType = TYPE_RING) \<and> geom_size part < 2
      then True
      else False)"

text \<open>The primary color (source lines 144 to 149).\<close>

definition primaryColor :: "Style \<Rightarrow> Vec4f" where
  "primaryColor myStyle =
     (case polygonSymbol myStyle of
        Some polySymbol \<Rightarrow> polygon_fill_color polySymbol
      | None \<Rightarrow>
          (case lineSymbol myStyle of
             Some lineSym \<Rightarrow> stroke_color (line_stroke lineSym)
           | None \<Rightarrow>
               (case pointSymbol myStyle of
                  Some pointSym \<Rightarrow> point_fill_color pointSym
                | None \<Rightarrow> Vec4f 1 1 1 1)))"

definition primMode :: "GeometryType \<Rightarrow> GLenum" where
  "primMode renderType =
     (if renderType = TYPE_LINESTRING then GL_LINE_STRIP
      else if renderType = TYPE_RING then GL_LINE_LOOP
      else GL_POINTS)"

definition Vec3_sub :: "Vec3 \<Rightarrow> Vec3 \<Rightarrow> Vec3" where
  "Vec3_sub a b = (case a of Vec3 x y z \<Rightarrow> (case b of Vec3 u v w \<Rightarrow> Vec3 (x - u) (y - v) (z - w)))"

definition Vec3_add :: "Vec3 \<Rightarrow> Vec3 \<Rightarrow> Vec3" where
  "Vec3_add a b = (case a of Vec3 x y z \<Rightarrow> (case b of Vec3 u v w \<Rightarrow> Vec3 (x + u) (y + v) (z + w)))"

text \<open>
  Line or point geometry (source lines 170 to 199). The polygonizer's result replaces
  the draw geometry; the single-point bound is set on whichever geometry is current.
\<close>

definition buildLineOrPoint ::
  "Collab \<Rightarrow> BuildGeometryFilter \<Rightarrow> Style \<Rightarrow> Geometry \<Rightarrow> GeometryType \<Rightarrow>
   SpatialReference option \<Rightarrow> SpatialReference option \<Rightarrow> bool \<Rightarrow> DrawGeom \<Rightarrow>
   DrawGeom \<times> Call list" where
  "buildLineOrPoint C flt myStyle part renderType featureSRS mapSRS makeECEF osgGeom =
     (let allPoints = transformAndLocalize C (asVector part) featureSRS [] mapSRS
                        (m_world2local flt) makeECEF;
          polygonized =
            (case lineSymbol myStyle of
               Some lineSym \<Rightarrow> stroke_widthUnits (line_stroke lineSym) \<noteq> PIXELS
             | None \<Rightarrow> False);
          g1 = (case lineSymbol myStyle of
                  Some lineSym \<Rightarrow>
                    if stroke_widthUnits (line_stroke lineSym) \<noteq> PIXELS
                    then PolygonizeLinesOperator C (line_stroke lineSym) allPoints
                    else osgGeom\<lparr>dg_vertexArray := Some allPoints,
                           dg_primitiveSets := dg_primitiveSets osgGeom @
                             [DrawArrays (primMode renderType) 0 (length allPoints)],
                           dg_lineSymbology := Some lineSym,
                           dg_pointSymbology :=
                             (case pointSymbol myStyle of
                                Some pointSym \<Rightarrow> Some pointSym
                              | None \<Rightarrow> dg_pointSymbology osgGeom)\<rparr>
                | None \<Rightarrow>
                    osgGeom\<lparr>dg_vertexArray := Some allPoints,
                       dg_primitiveSets := dg_primitiveSets osgGeom @
                         [DrawArrays (primMode renderType) 0 (length allPoints)],
                       dg_pointSymbology :=
                         (case pointSymbol myStyle of
                            Some pointSym \<Rightarrow> Some pointSym
                          | None \<Rightarrow> dg_pointSymbology osgGeom)\<rparr>);
          cs = (case lineSymbol myStyle of
                  Some lineSym \<Rightarrow>
                    if polygonized then [Call_PolygonizeLines (line_stroke lineSym) allPoints]
                    else []
                | None \<Rightarrow> []);
          g2 = (if primMode renderType = GL_POINTS \<and> length allPoints = 1
                then g1\<lparr>dg_initialBound :=
                       Some (Vec3_sub (hd allPoints) (Vec3 0.5 0.5 0.5),
                             Vec3_add (hd allPoints) (Vec3 0.5 0.5 0.5))\<rparr>
                else g1)
      in (g2, cs))"

text \<open>
  Subdivision for an ECEF globe (source lines 206 to 225). The check for a disabled
  tessellation reads the filter's own style.
\<close>

definition disableTess :: "BuildGeometryFilter \<Rightarrow> bool" where
  "disableTess flt =
     (case lineSymbol (m_style flt) of
        Some line \<Rightarrow> line_tessellation line = Some 0
      | None \<Rightarrow> False)"

definition subdivide ::
  "Collab \<Rightarrow> BuildGeometryFilter \<Rightarrow> Feature \<Rightarrow> bool \<Rightarrow> GeometryType \<Rightarrow> DrawGeom \<Rightarrow>
   DrawGeom \<times> Call list" where
  "subdivide C flt input makeECEF renderType osgGeom =
     (if makeECEF \<and> renderType \<noteq> TYPE_POINTSET then
        (if makeECEF \<and> \<not> disableTess flt then
           (let threshold = DegreesToRadians (m_maxAngle_deg flt);
                interp = (case feat_geoInterp input of
                            Some i \<Rightarrow> i
                          | None \<Rightarrow> m_geoInterp flt)
            in (MeshSubdivider_run C (m_world2local flt) (m_local2world flt) osgGeom
                  threshold interp,
                [Call_MeshSubdivider osgGeom threshold interp]))
         else (osgGeom, []))
      else (osgGeom, []))"

text \<open>
  The color assignment (source lines 235 to 238); reading the element count of a null
  vertex array is a null dereference.
\<close>

definition assignColor :: "Vec4f \<Rightarrow> DrawGeom \<Rightarrow> error + DrawGeom" where
  "assignColor color osgGeom =
     (case dg_vertexArray osgGeom of
        None \<Rightarrow> Inl NullDereference
      | Some verts \<Rightarrow>
          Inr (osgGeom\<lparr>dg_colorArray := Some (replicate (length verts) color),
                       dg_colorBinding := BIND_PER_VERTEX\<rparr>))"

text \<open>The geometry build (source lines 151 to 200).\<close>

definition buildGeometry ::
  "Collab \<Rightarrow> BuildGeometryFilter \<Rightarrow> Feature \<Rightarrow> Style \<Rightarrow> Geometry \<Rightarrow> GeometryType \<Rightarrow>
   SpatialReference option \<Rightarrow> SpatialReference option \<Rightarrow> bool \<Rightarrow> DrawGeom \<times> Call list" where
  "buildGeometry C flt input myStyle part renderType featureSRS mapSRS makeECEF =
     (let g0 = new_Geometry\<lparr>dg_useVertexBufferObjects := m_useVertexBufferObjects flt\<rparr>;
          osgGeom = (case m_featureNameExpr flt of
                       Some e \<Rightarrow> g0\<lparr>dg_name := feature_eval C e input\<rparr>
                     | None \<Rightarrow> g0)
      in if renderType = TYPE_POLYGON
         then buildPolygon C flt part featureSRS mapSRS makeECEF True osgGeom
         else buildLineOrPoint C flt myStyle part renderType featureSRS mapSRS makeECEF osgGeom)"

definition myStyle_of :: "BuildGeometryFilter \<Rightarrow> Feature \<Rightarrow> Style" where
  "myStyle_of flt input = (case feat_style input of Some s \<Rightarrow> s | None \<Rightarrow> m_style flt)"

text \<open>
  The body of the loop over the parts (source lines 94 to 245). Source line 203 reads
  through the vertex array of the geometry just built: a null array is a null
  dereference. The usage hint set on the vertex buffer object there is not part of
  the data model.
\<close>

definition processPart ::
  "Collab \<Rightarrow> FilterContext \<Rightarrow> bool \<Rightarrow> SpatialReference option \<Rightarrow> SpatialReference option \<Rightarrow>
   Feature \<Rightarrow> Geometry \<Rightarrow> BuildGeometryFilter \<Rightarrow> error + BuildGeometryFilter" where
  "processPart C ctx makeECEF featureSRS mapSRS input part flt =
     (if geom_size part = 0 then Inr flt
      else if belowMinimum (resolveRenderType (myStyle_of flt input) part) part then Inr flt
      else
        (case buildGeometry C flt input (myStyle_of flt input) part
                (resolveRenderType (myStyle_of flt input) part) featureSRS mapSRS makeECEF of
           (built, cs1) \<Rightarrow>
             (case dg_vertexArray built of
                None \<Rightarrow> Inl NullDereference
              | Some verts \<Rightarrow>
                  (case subdivide C flt input makeECEF
                          (resolveRenderType (myStyle_of flt input) part) built of
                     (subdivided, cs2) \<Rightarrow>
                       (case assignColor (primaryColor (myStyle_of flt input)) subdivided of
                          Inl e \<Rightarrow> Inl e
                        | Inr osgGeom \<Rightarrow>
                            (case m_geode flt of
                               None \<Rightarrow> Inl NullDereference
                             | Some geode \<Rightarrow>
                                 Inr (flt\<lparr>m_geode :=
                                            Some (geode\<lparr>drawables := drawables geode @ [osgGeom]\<rparr>),
                                          calls := calls flt @ cs1 @ cs2 @
                                            (if ctx_featureIndex ctx
                                             then [Call_tagPrimitiveSets osgGeom]
                                             else [])\<rparr>)))))))"

fun processParts ::
  "Collab \<Rightarrow> FilterContext \<Rightarrow> bool \<Rightarrow> SpatialReference option \<Rightarrow> SpatialReference option \<Rightarrow>
   Feature \<Rightarrow> Geometry list \<Rightarrow> BuildGeometryFilter \<Rightarrow> error + BuildGeometryFilter" where
  "processParts C ctx makeECEF featureSRS mapSRS input [] flt = Inr flt"
| "processParts C ctx makeECEF featureSRS mapSRS input (part # parts) flt =
     (case processPart C ctx makeECEF featureSRS mapSRS input part flt of
        Inl e \<Rightarrow> Inl e
      | Inr flt' \<Rightarrow> processParts C ctx makeECEF featureSRS mapSRS input parts flt')"

fun processFeatures ::
  "Collab \<Rightarrow> FilterContext \<Rightarrow> bool \<Rightarrow> SpatialReference option \<Rightarrow> SpatialReference option \<Rightarrow>
   Feature list \<Rightarrow> BuildGeometryFilter \<Rightarrow> error + BuildGeometryFilter" where
  "processFeatures C ctx makeECEF featureSRS mapSRS [] flt = Inr flt"
| "processFeatures C ctx makeECEF featureSRS mapSRS (input # features) flt =
     (case processParts C ctx makeECEF featureSRS mapSRS input
             (GeometryIterator (feat_geometry input)) flt of
        Inl e \<Rightarrow> Inl e
      | Inr flt' \<Rightarrow> processFeatures C ctx makeECEF featureSRS mapSRS features flt')"

text \<open>
  \<^verbatim>\<open>process\<close> (source lines 73 to 315): the frame and the two spatial references are
  read from the context once, then every part of every feature is processed. The
  only value it returns is the flag true.
\<close>

definition process ::
  "Collab \<Rightarrow> Feature list \<Rightarrow> FilterContext \<Rightarrow> BuildGeometryFilter \<Rightarrow>
   error + (bool \<times> BuildGeometryFilter)" where
  "process C features ctx flt =
     (let makeECEF = (if ctx_isGeoreferenced ctx then ctx_isGeocentric ctx else False);
          featureSRS = (if ctx_isGeoreferenced ctx then Some (ctx_extentSRS ctx) else None);
          mapSRS = (if ctx_isGeoreferenced ctx then Some (ctx_mapSRS ctx) else None)
      in case processFeatures C ctx makeECEF featureSRS mapSRS features
                (flt\<lparr>calls := calls flt @ [Call_process (m_style flt) features]\<rparr>) of
           Inl e \<Rightarrow> Inl e
         | Inr flt' \<Rightarrow> Inr (True, flt'))"

subsection \<open>push\<close>

text \<open>The passes of \<^verbatim>\<open>process\<close> that \<^verbatim>\<open>push\<close> runs (source lines 396 to 416).\<close>

definition push_passes ::
  "Collab \<Rightarrow> Feature list \<Rightarrow> FilterContext \<Rightarrow> BuildGeometryFilter \<Rightarrow>
   error + (bool \<times> BuildGeometryFilter)" where
  "push_passes C input ctx flt =
     (if polygonSymbol (m_style flt) \<noteq> None \<and> lineSymbol (m_style flt) \<noteq> None then
        (let save = m_style flt in
         case process C input ctx (flt\<lparr>m_style := remove_LineSymbol (m_style flt)\<rparr>) of
           Inl e \<Rightarrow> Inl e
         | Inr (ok1, flt1) \<Rightarrow>
             (let flt2 = flt1\<lparr>m_style := remove_PolygonSymbol save\<rparr>;
                  save2 = remove_PolygonSymbol save
              in case process C input ctx flt2 of
                   Inl e \<Rightarrow> Inl e
                 | Inr (ok2, flt3) \<Rightarrow> Inr (ok2, flt3\<lparr>m_style := save2\<rparr>)))
      else process C input ctx flt)"

text \<open>The state attributes set on the geode (source lines 431 to 446).\<close>

definition applyGeodeState :: "Style \<Rightarrow> Geode \<Rightarrow> Geode" where
  "applyGeodeState style geode =
     (let psize = (case lineSymbol style of
                    Some lineSym \<Rightarrow> max 1 (width_value (line_stroke lineSym))
                  | None \<Rightarrow> 1);
          g1 = geode\<lparr>geode_pointSize := Some psize, geode_lineWidth := Some psize\<rparr>
      in case pointSymbol style of
           Some pointSym \<Rightarrow>
             (case point_size pointSym of
                Some s \<Rightarrow> g1\<lparr>geode_pointSize := Some s\<rparr>
              | None \<Rightarrow> g1)
         | None \<Rightarrow> g1)"

text \<open>
  \<^verbatim>\<open>push\<close> (source lines 389 to 457) returns the node, or no node, and the filter
  as it leaves it. The geode is read first: after \<^verbatim>\<open>reset\<close> and the passes it is never
  null, so the null branch stands only for the dereference of source line 421.
  Releasing the geode leaves the member null.
\<close>

definition push ::
  "Collab \<Rightarrow> Feature list \<Rightarrow> FilterContext \<Rightarrow> BuildGeometryFilter \<Rightarrow>
   error + (Node option \<times> BuildGeometryFilter)" where
  "push C input ctx flt0 =
     (let flt = (reset flt0)\<lparr>m_world2local := fst (computeLocalizers C ctx),
                               m_local2world := snd (computeLocalizers C ctx)\<rparr>
      in case push_passes C input ctx flt of
           Inl e \<Rightarrow> Inl e
         | Inr (ok, flt1) \<Rightarrow>
             (case m_geode flt1 of
                None \<Rightarrow> Inl NullDereference
              | Some geode \<Rightarrow>
                  (let geode1 = (if m_featureNameExpr flt1 = None
                                 then VertexCacheOptimizer C (MeshConsolidator_run C geode)
                                 else geode)
                   in if ok then
                        (let geode2 = (if \<not> style_empty (m_style flt1)
                                       then applyGeodeState (m_style flt1) geode1
                                       else geode1)
                         in Inr (Some (delocalize (m_local2world flt1) geode2),
                                 flt1\<lparr>m_geode := None\<rparr>))
                      else Inr (None, flt1\<lparr>m_geode := Some geode1\<rparr>))))"

section \<open>Observations on runs\<close>

fun is_process_call :: "Call \<Rightarrow> bool" where
  "is_process_call (Call_process s fs) = True"
| "is_process_call c = False"

fun is_subdivider_call :: "Call \<Rightarrow> bool" where
  "is_subdivider_call (Call_MeshSubdivider g t i) = True"
| "is_subdivider_call c = False"

fun is_polygonize_call :: "Call \<Rightarrow> bool" where
  "is_polygonize_call (Call_PolygonizeLines s vs) = True"
| "is_polygonize_call c = False"

text \<open>The calls a run added to the record: those of \<open>flt'\<close> after the ones \<open>flt\<close> had.\<close>

definition new_calls :: "BuildGeometryFilter \<Rightarrow> BuildGeometryFilter \<Rightarrow> Call list" where
  "new_calls flt flt' = drop (length (calls flt)) (calls flt')"

text \<open>
  A draw geometry with a vertex array, a color array of the same length whose every
  entry is \<open>color\<close>, and per-vertex binding.
\<close>

definition perVertexColored :: "Vec4f \<Rightarrow> DrawGeom \<Rightarrow> bool" where
  "perVertexColored color g =
     (case dg_vertexArray g of
        None \<Rightarrow> False
      | Some verts \<Rightarrow>
          dg_colorArray g = Some (replicate (length verts) color) \<and>
          dg_colorBinding g = BIND_PER_VERTEX)"

definition geode_drawables :: "BuildGeometryFilter \<Rightarrow> DrawGeom list" where
  "geode_drawables flt = (case m_geode flt of None \<Rightarrow> [] | Some geode \<Rightarrow> drawables geode)"

text \<open>The draw geometries of the node \<^verbatim>\<open>push\<close> returned, when it returned one.\<close>

definition result_drawables ::
  "error + (Node option \<times> BuildGeometryFilter) \<Rightarrow> DrawGeom list option" where
  "result_drawables r =
     (case r of
        Inl e \<Rightarrow> None
      | Inr (None, flt) \<Rightarrow> None
      | Inr (Some (MatrixTransform m geode), flt) \<Rightarrow> Some (drawables geode))"

text \<open>
  The skip test of the loop body (source lines 97 and 138 to 142) for a part of a
  feature, under a filter whose style is \<open>filterStyle\<close>: the style in force is the
  feature's own if set, else the filter's.
\<close>

definition skipped :: "Style \<Rightarrow> Feature \<Rightarrow> Geometry \<Rightarrow> bool" where
  "skipped filterStyle input part \<longleftrightarrow>
     geom_size part = 0 \<or>
     belowMinimum
       (resolveRenderType (case feat_style input of Some s \<Rightarrow> s | None \<Rightarrow> filterStyle) part)
       part"

text \<open>
  The parts that a run of \<^verbatim>\<open>process\<close> over \<open>features\<close> does not skip, each with the
  feature it belongs to, in the order of the run.
\<close>

definition processedParts :: "Style \<Rightarrow> Feature list \<Rightarrow> (Feature \<times> Geometry) list" where
  "processedParts filterStyle features =
     concat (map (\<lambda>input. map (Pair input)
                    (filter (\<lambda>part. \<not> skipped filterStyle input part)
                       (GeometryIterator (feat_geometry input))))
               features)"

text \<open>
  The draw geometry the loop body makes of a part (source lines 144 to 238): built
  under the style in force and the render type resolved from it, handed to the
  subdivision step, then colored with the primary color of the style in force.
\<close>

definition partGeometry ::
  "Collab \<Rightarrow> BuildGeometryFilter \<Rightarrow> bool \<Rightarrow> SpatialReference option \<Rightarrow>
   SpatialReference option \<Rightarrow> Feature \<Rightarrow> Geometry \<Rightarrow> error + DrawGeom" where
  "partGeometry C flt makeECEF featureSRS mapSRS input part =
     assignColor (primaryColor (myStyle_of flt input))
       (fst (subdivide C flt input makeECEF (resolveRenderType (myStyle_of flt input) part)
          (fst (buildGeometry C flt input (myStyle_of flt input) part
             (resolveRenderType (myStyle_of flt input) part) featureSRS mapSRS makeECEF))))"

text \<open>The same with the frame and the spatial references that \<^verbatim>\<open>process\<close> reads from the context.\<close>

definition emittedGeometry ::
  "Collab \<Rightarrow> FilterContext \<Rightarrow> BuildGeometryFilter \<Rightarrow> Feature \<Rightarrow> Geometry \<Rightarrow>
   error + DrawGeom" where
  "emittedGeometry C ctx flt input part =
     partGeometry C flt (ctx_isGeoreferenced ctx \<and> ctx_isGeocentric ctx)
       (if ctx_isGeoreferenced ctx then Some (ctx_extentSRS ctx) else None)
       (if ctx_isGeoreferenced ctx then Some (ctx_mapSRS ctx) else None) input part"

text \<open>
  \<open>emits C makeECEF featureSRS mapSRS pairs flt new cs flt'\<close>: the filter \<open>flt'\<close> is \<open>flt\<close>
  with the draw geometries \<open>new\<close> appended to the geode and the calls \<open>cs\<close> appended to
  the record, nothing else changed; no call in \<open>cs\<close> is a run of \<^verbatim>\<open>process\<close>; and the
  new draw geometries are, one for one and in order, those of the parts \<open>pairs\<close>.
\<close>

definition emits ::
  "Collab \<Rightarrow> bool \<Rightarrow> SpatialReference option \<Rightarrow> SpatialReference option \<Rightarrow>
   (Feature \<times> Geometry) list \<Rightarrow> BuildGeometryFilter \<Rightarrow> DrawGeom list \<Rightarrow> Call list \<Rightarrow>
   BuildGeometryFilter \<Rightarrow> bool" where
  "emits C makeECEF featureSRS mapSRS pairs flt new cs flt' \<longleftrightarrow>
     flt' = flt\<lparr>m_geode := m_geode flt', calls := calls flt @ cs\<rparr> \<and>
     (case m_geode flt of
        None \<Rightarrow> m_geode flt' = None \<and> new = []
      | Some geode \<Rightarrow> m_geode flt' = Some (geode\<lparr>drawables := drawables geode @ new\<rparr>)) \<and>
     filter is_process_call cs = [] \<and>
     list_all2 (\<lambda>p g. partGeometry C flt makeECEF featureSRS mapSRS (fst p) (snd p) = Inr g)
       pairs new"



text \<open>
  What \<^verbatim>\<open>push\<close> does to the geode after the passes (source lines 418 to 446): the
  consolidator and the vertex-cache optimizer when no feature names are requested,
  then the state attributes when the style is not empty.
\<close>

definition pushFinish :: "Collab \<Rightarrow> string option \<Rightarrow> Style \<Rightarrow> Geode \<Rightarrow> Geode" where
  "pushFinish C nameExpr style geode =
     (let geode1 = (if nameExpr = None
                    then VertexCacheOptimizer C (MeshConsolidator_run C geode)
                    else geode)
      in if \<not> style_empty style then applyGeodeState style geode1 else geode1)"

text \<open>The styles of the passes of \<^verbatim>\<open>push\<close>, in order (source lines 400 to 416).\<close>

definition passStyles :: "Style \<Rightarrow> Style list" where
  "passStyles style =
     (if polygonSymbol style \<noteq> None \<and> lineSymbol style \<noteq> None
      then [remove_LineSymbol style, remove_PolygonSymbol style]
      else [style])"

section \<open>The spec's wording, for comparison\<close>

text \<open>
  The priority table of the spec's render-type resolver, first match wins: the
  arguments are whether the style has a polygon, a line and a point symbol, the
  part's type and its total point count.
\<close>

definition spec_renderType ::
  "bool \<Rightarrow> bool \<Rightarrow> bool \<Rightarrow> GeometryType \<Rightarrow> nat \<Rightarrow> GeometryType" where
  "spec_renderType hasPolygonSymbol hasLineSymbol hasPointSymbol partType totalPoints =
     (if hasPolygonSymbol \<and> partType \<noteq> TYPE_POINTSET \<and> 3 \<le> totalPoints then TYPE_POLYGON
      else if hasLineSymbol \<and> partType = TYPE_POLYGON then TYPE_RING
      else if hasLineSymbol then partType
      else if hasPointSymbol then TYPE_POINTSET
      else partType)"

text \<open>
  The spec's polygon builder: the accepted holes \<open>holes\<close>, in order, each as a line loop
  that starts where the outer ring and the holes accepted before it end.
\<close>

definition spec_hole_loops :: "nat \<Rightarrow> Geometry list \<Rightarrow> PrimitiveSet list" where
  "spec_hole_loops n_outer holes =
     map (\<lambda>k. DrawArrays GL_LINE_LOOP
                 (n_outer + sum_list (map geom_size (take k holes)))
                 (geom_size (holes ! k)))
       [0..<length holes]"

section \<open>Sample inputs\<close>

text \<open>
  Collaborators for the concrete runs: a validator that wants three distinct points,
  an identity reprojection, a polygonizer that returns a ribbon over the doubled
  spine, a subdivider and a consolidator that change nothing, and a tessellator
  that replaces the primitive sets by one triangle set.
\<close>

definition sampleCollab :: Collab where
  "sampleCollab =
     \<lparr>isValid = (\<lambda>g. 3 \<le> length (remdups (asVector g))),
      transformPoint = (\<lambda>inputSRS outputSRS w2l toECEF p. p),
      PolygonizeLinesOperator = (\<lambda>stroke verts.
         new_Geometry\<lparr>dg_vertexArray := Some (verts @ verts),
                       dg_primitiveSets := [DrawElements GL_TRIANGLES []]\<rparr>),
      MeshSubdivider_run = (\<lambda>w2l l2w g threshold interp. g),
      retessellatePolygons =
        (\<lambda>t w g. g\<lparr>dg_primitiveSets := [DrawElements GL_TRIANGLES []]\<rparr>),
      feature_eval = (\<lambda>e f. e),
      computeLocalizers = (\<lambda>ctx. (identity_matrix, identity_matrix)),
      MeshConsolidator_run = (\<lambda>g. g),
      VertexCacheOptimizer = (\<lambda>g. g)\<rparr>"

definition geocentricContext :: FilterContext where
  "geocentricContext =
     \<lparr>ctx_isGeoreferenced = True, ctx_isGeocentric = True, ctx_extentSRS = ''wgs84'',
      ctx_mapSRS = ''wgs84'', ctx_featureIndex = False\<rparr>"

definition flatContext :: FilterContext where
  "flatContext =
     \<lparr>ctx_isGeoreferenced = False, ctx_isGeocentric = False, ctx_extentSRS = [],
      ctx_mapSRS = [], ctx_featureIndex = False\<rparr>"

definition black :: Vec4f where
  "black = Vec4f 0 0 0 1"

definition green :: Vec4f where
  "green = Vec4f 0 1 0 1"

definition red :: Vec4f where
  "red = Vec4f 1 0 0 1"

definition pixelLine :: LineSymbol where
  "pixelLine =
     \<lparr>line_stroke = \<lparr>stroke_color = black, stroke_width = Some 2, stroke_widthUnits = PIXELS\<rparr>,
      line_tessellation = None\<rparr>"

definition worldLine :: LineSymbol where
  "worldLine =
     \<lparr>line_stroke = \<lparr>stroke_color = red, stroke_width = Some 5, stroke_widthUnits = WORLD\<rparr>,
      line_tessellation = Some 0\<rparr>"

definition noStyle :: Style where
  "noStyle = \<lparr>pointSymbol = None, lineSymbol = None, polygonSymbol = None, otherSymbols = []\<rparr>"

definition fillAndOutline :: Style where
  "fillAndOutline =
     noStyle\<lparr>lineSymbol := Some pixelLine,
             polygonSymbol := Some \<lparr>polygon_fill_color = green\<rparr>\<rparr>"

definition fillOnly :: Style where
  "fillOnly = noStyle\<lparr>polygonSymbol := Some \<lparr>polygon_fill_color = green\<rparr>\<rparr>"

definition outlineOnly :: Style where
  "outlineOnly = noStyle\<lparr>lineSymbol := Some pixelLine\<rparr>"

definition ribbonOnly :: Style where
  "ribbonOnly = noStyle\<lparr>lineSymbol := Some worldLine\<rparr>"

definition feat :: "Geometry \<Rightarrow> Feature" where
  "feat g = \<lparr>feat_geometry = g, feat_style = None, feat_geoInterp = None\<rparr>"

definition triangle :: "Vec3 list" where
  "triangle = [Vec3 0 0 0, Vec3 10 0 0, Vec3 10 10 0]"

definition smallTriangle :: "Vec3 list" where
  "smallTriangle = [Vec3 7 2 0, Vec3 8 2 0, Vec3 8 3 0]"

text \<open>Three points, two of them distinct: the sample validator reports the ring invalid.\<close>

definition degenerate :: "Vec3 list" where
  "degenerate = [Vec3 0 0 0, Vec3 0 0 0, Vec3 10 10 0]"

definition segment :: "Vec3 list" where
  "segment = [Vec3 0 0 0, Vec3 10 0 0]"



text \<open>
  The same collaborators with a subdivider that inserts the midpoint into a
  geometry of two vertices.
\<close>

definition midpoint :: "Vec3 \<Rightarrow> Vec3 \<Rightarrow> Vec3" where
  "midpoint a b =
     (case a of Vec3 x y z \<Rightarrow> (case b of Vec3 u v w \<Rightarrow> Vec3 ((x + u) / 2) ((y + v) / 2) ((z + w) / 2)))"

definition midpointCollab :: Collab where
  "midpointCollab =
     sampleCollab\<lparr>MeshSubdivider_run := (\<lambda>w2l l2w g threshold interp.
        case dg_vertexArray g of
          Some [a, b] \<Rightarrow> g\<lparr>dg_vertexArray := Some [a, midpoint a b, b]\<rparr>
        | _ \<Rightarrow> g)\<rparr>"

text \<open>A red fill as a feature's own style.\<close>

definition redFill :: Style where
  "redFill = noStyle\<lparr>polygonSymbol := Some \<lparr>polygon_fill_color = red\<rparr>\<rparr>"

definition styled :: "Style \<Rightarrow> Geometry \<Rightarrow> Feature" where
  "styled s g = \<lparr>feat_geometry = g, feat_style = Some s, feat_geoInterp = None\<rparr>"

section \<open>Properties\<close>

subsection \<open>What a run of the loops leaves\<close>

lemma buildPolygon_calls:
  "filter is_process_call (snd (buildPolygon C flt ring fs ms e t g)) = [] \<and>
   filter is_subdivider_call (snd (buildPolygon C flt ring fs ms e t g)) = [] \<and>
   filter is_polygonize_call (snd (buildPolygon C flt ring fs ms e t g)) = []"
  by (simp add: buildPolygon_def Let_def)

lemma buildLineOrPoint_calls:
  "filter is_process_call (snd (buildLineOrPoint C flt s part rt fs ms e g)) = [] \<and>
   filter is_subdivider_call (snd (buildLineOrPoint C flt s part rt fs ms e g)) = []"
  by (simp add: buildLineOrPoint_def Let_def split: option.splits)

lemma buildGeometry_calls:
  "filter is_process_call (snd (buildGeometry C flt input s part rt fs ms e)) = [] \<and>
   filter is_subdivider_call (snd (buildGeometry C flt input s part rt fs ms e)) = []"
  by (simp add: buildGeometry_def Let_def buildPolygon_calls buildLineOrPoint_calls)

lemma subdivide_calls:
  "filter is_process_call (snd (subdivide C flt input e rt g)) = [] \<and>
   filter is_polygonize_call (snd (subdivide C flt input e rt g)) = []"
  by (simp add: subdivide_def Let_def)

lemma assignColor_Inr:
  "assignColor c g = Inr g' \<Longrightarrow> perVertexColored c g'"
  by (auto simp: assignColor_def perVertexColored_def split: option.splits)

text \<open>
  A run of the loop body that does not skip the part and returns: the geometry was
  built with a vertex array, maybe subdivided, colored and appended to the geode.
\<close>

lemma processPart_built:
  assumes "processPart C ctx e fs ms input part flt = Inr flt'"
    and "geom_size part \<noteq> 0"
    and "\<not> belowMinimum (resolveRenderType (myStyle_of flt input) part) part"
  shows "\<exists>verts g geode.
           dg_vertexArray (fst (buildGeometry C flt input (myStyle_of flt input) part
              (resolveRenderType (myStyle_of flt input) part) fs ms e)) = Some verts \<and>
           assignColor (primaryColor (myStyle_of flt input))
             (fst (subdivide C flt input e (resolveRenderType (myStyle_of flt input) part)
                (fst (buildGeometry C flt input (myStyle_of flt input) part
                   (resolveRenderType (myStyle_of flt input) part) fs ms e)))) = Inr g \<and>
           m_geode flt = Some geode \<and>
           flt' = flt\<lparr>m_geode := Some (geode\<lparr>drawables := drawables geode @ [g]\<rparr>),
                      calls := calls flt @
                        snd (buildGeometry C flt input (myStyle_of flt input) part
                          (resolveRenderType (myStyle_of flt input) part) fs ms e) @
                        snd (subdivide C flt input e
                          (resolveRenderType (myStyle_of flt input) part)
                          (fst (buildGeometry C flt input (myStyle_of flt input) part
                             (resolveRenderType (myStyle_of flt input) part) fs ms e))) @
                        (if ctx_featureIndex ctx then [Call_tagPrimitiveSets g] else [])\<rparr>"
  using assms
  by (auto simp: processPart_def split: option.splits sum.splits prod.splits)

text \<open>What a successful run of the loop body leaves: the filter as it was, or one more drawable.\<close>

lemma processPart_Inr:
  assumes "processPart C ctx e fs ms input part flt = Inr flt'"
  shows "flt' = flt \<or>
         (\<exists>geode g cs. m_geode flt = Some geode \<and>
            flt' = flt\<lparr>m_geode := Some (geode\<lparr>drawables := drawables geode @ [g]\<rparr>),
                       calls := calls flt @ cs\<rparr> \<and>
            perVertexColored (primaryColor (myStyle_of flt input)) g \<and>
            filter is_process_call cs = [])"
proof (cases "geom_size part = 0 \<or>
              belowMinimum (resolveRenderType (myStyle_of flt input) part) part")
  case True
  with assms show ?thesis by (auto simp: processPart_def split: if_splits)
next
  case False
  then have ne: "geom_size part \<noteq> 0"
    and nb: "\<not> belowMinimum (resolveRenderType (myStyle_of flt input) part) part"
    by simp_all
  from processPart_built[OF assms ne nb] obtain verts g geode cs where
    a: "assignColor (primaryColor (myStyle_of flt input))
             (fst (subdivide C flt input e (resolveRenderType (myStyle_of flt input) part)
                (fst (buildGeometry C flt input (myStyle_of flt input) part
                   (resolveRenderType (myStyle_of flt input) part) fs ms e)))) = Inr g" and
    ge: "m_geode flt = Some geode" and
    cs: "cs = snd (buildGeometry C flt input (myStyle_of flt input) part
                          (resolveRenderType (myStyle_of flt input) part) fs ms e) @
                        snd (subdivide C flt input e
                          (resolveRenderType (myStyle_of flt input) part)
                          (fst (buildGeometry C flt input (myStyle_of flt input) part
                             (resolveRenderType (myStyle_of flt input) part) fs ms e))) @
                        (if ctx_featureIndex ctx then [Call_tagPrimitiveSets g] else [])" and
    r: "flt' = flt\<lparr>m_geode := Some (geode\<lparr>drawables := drawables geode @ [g]\<rparr>),
                    calls := calls flt @ cs\<rparr>"
    by blast
  have "filter is_process_call cs = []"
    unfolding cs by (simp add: buildGeometry_calls subdivide_calls)
  with ge r assignColor_Inr[OF a] show ?thesis by blast
qed

lemma skipped_myStyle:
  "skipped (m_style flt) input part \<longleftrightarrow>
     geom_size part = 0 \<or> belowMinimum (resolveRenderType (myStyle_of flt input) part) part"
  by (simp add: skipped_def myStyle_of_def)

text \<open>The geometry of a part depends on the filter's configuration only, not on its geode or calls.\<close>

lemma partGeometry_cong:
  assumes "m_style a = m_style b"
    and "m_useVertexBufferObjects a = m_useVertexBufferObjects b"
    and "m_featureNameExpr a = m_featureNameExpr b"
    and "m_world2local a = m_world2local b"
    and "m_local2world a = m_local2world b"
    and "m_maxAngle_deg a = m_maxAngle_deg b"
    and "m_geoInterp a = m_geoInterp b"
  shows "partGeometry C a e fs ms input part = partGeometry C b e fs ms input part"
proof -
  have my: "myStyle_of a input = myStyle_of b input"
    using assms(1) by (simp add: myStyle_of_def split: option.splits)
  have bp: "\<And>ring t g. buildPolygon C a ring fs ms e t g = buildPolygon C b ring fs ms e t g"
    using assms(4) by (simp add: buildPolygon_def Let_def)
  have bl: "\<And>s rt g. buildLineOrPoint C a s part rt fs ms e g =
              buildLineOrPoint C b s part rt fs ms e g"
    using assms(4) by (simp add: buildLineOrPoint_def Let_def)
  have bg: "\<And>s rt. buildGeometry C a input s part rt fs ms e =
              buildGeometry C b input s part rt fs ms e"
    using assms(2,3) by (simp add: buildGeometry_def Let_def bp bl split: option.splits)
  have dt: "disableTess a = disableTess b"
    using assms(1) by (simp add: disableTess_def split: option.splits)
  have sd: "\<And>rt g. subdivide C a input e rt g = subdivide C b input e rt g"
    using assms(4,5,6,7) by (simp add: subdivide_def Let_def dt split: option.splits)
  show ?thesis by (simp add: partGeometry_def my bg sd)
qed

lemma partGeometry_frame:
  "partGeometry C (flt\<lparr>m_geode := g, calls := c\<rparr>) e fs ms input part =
   partGeometry C flt e fs ms input part"
  by (rule partGeometry_cong) simp_all

lemma emits_refl: "emits C e fs ms [] flt [] [] flt"
  by (simp add: emits_def split: option.splits)

lemma emits_style: "emits C e fs ms pairs flt new cs flt' \<Longrightarrow> m_style flt' = m_style flt"
  by (auto simp: emits_def dest: arg_cong[where f = m_style])

lemma emits_calls: "emits C e fs ms pairs flt new cs flt' \<Longrightarrow> calls flt' = calls flt @ cs"
  by (auto simp: emits_def dest: arg_cong[where f = calls])

lemma emits_drawables:
  "emits C e fs ms pairs flt new cs flt' \<Longrightarrow> geode_drawables flt' = geode_drawables flt @ new"
  by (auto simp: emits_def geode_drawables_def split: option.splits)

lemma emits_trans:
  assumes "emits C e fs ms p1 flt n1 c1 flt1" and "emits C e fs ms p2 flt1 n2 c2 flt2"
  shows "emits C e fs ms (p1 @ p2) flt (n1 @ n2) (c1 @ c2) flt2"
proof -
  have e1: "flt1 = flt\<lparr>m_geode := m_geode flt1, calls := calls flt @ c1\<rparr>"
    using assms(1) by (simp add: emits_def)
  have e2: "flt2 = flt1\<lparr>m_geode := m_geode flt2, calls := calls flt1 @ c2\<rparr>"
    using assms(2) by (simp add: emits_def)
  have c: "calls flt1 = calls flt @ c1" using assms(1) by (rule emits_calls)
  have eq: "flt2 = flt\<lparr>m_geode := m_geode flt2, calls := calls flt @ c1 @ c2\<rparr>"
    by (subst e2, subst e1) (simp add: c)
  have g: "(case m_geode flt of
        None \<Rightarrow> m_geode flt2 = None \<and> n1 @ n2 = []
      | Some geode \<Rightarrow> m_geode flt2 = Some (geode\<lparr>drawables := drawables geode @ n1 @ n2\<rparr>))"
    using assms by (auto simp: emits_def split: option.splits)
  have f: "filter is_process_call (c1 @ c2) = []"
    using assms by (simp add: emits_def)
  have pg: "\<And>input part. partGeometry C flt1 e fs ms input part =
              partGeometry C flt e fs ms input part"
    by (subst e1) (rule partGeometry_frame)
  have l1: "list_all2 (\<lambda>p g. partGeometry C flt e fs ms (fst p) (snd p) = Inr g) p1 n1"
    using assms(1) by (simp add: emits_def)
  have l2: "list_all2 (\<lambda>p g. partGeometry C flt e fs ms (fst p) (snd p) = Inr g) p2 n2"
    using assms(2) by (simp add: emits_def pg)
  have p: "list_all2 (\<lambda>p g. partGeometry C flt e fs ms (fst p) (snd p) = Inr g)
             (p1 @ p2) (n1 @ n2)"
    using l1 l2 by (rule list_all2_appendI)
  show ?thesis unfolding emits_def using eq g f p by simp
qed

lemma processPart_emits:
  assumes "processPart C ctx e fs ms input part flt = Inr flt'"
  shows "\<exists>new cs. emits C e fs ms
           (if skipped (m_style flt) input part then [] else [(input, part)]) flt new cs flt'"
proof (cases "skipped (m_style flt) input part")
  case True
  then have "flt' = flt"
    using assms unfolding skipped_myStyle by (auto simp: processPart_def split: if_splits)
  with True show ?thesis by (auto intro: emits_refl)
next
  case False
  then have ne: "geom_size part \<noteq> 0"
    and nb: "\<not> belowMinimum (resolveRenderType (myStyle_of flt input) part) part"
    unfolding skipped_myStyle by simp_all
  from processPart_built[OF assms ne nb] obtain verts g geode cs where
    a: "partGeometry C flt e fs ms input part = Inr g" and
    ge: "m_geode flt = Some geode" and
    cs: "cs = snd (buildGeometry C flt input (myStyle_of flt input) part
                          (resolveRenderType (myStyle_of flt input) part) fs ms e) @
                        snd (subdivide C flt input e
                          (resolveRenderType (myStyle_of flt input) part)
                          (fst (buildGeometry C flt input (myStyle_of flt input) part
                             (resolveRenderType (myStyle_of flt input) part) fs ms e))) @
                        (if ctx_featureIndex ctx then [Call_tagPrimitiveSets g] else [])" and
    r: "flt' = flt\<lparr>m_geode := Some (geode\<lparr>drawables := drawables geode @ [g]\<rparr>),
                    calls := calls flt @ cs\<rparr>"
    unfolding partGeometry_def by blast
  have f: "filter is_process_call cs = []"
    unfolding cs by (simp add: buildGeometry_calls subdivide_calls)
  have "emits C e fs ms [(input, part)] flt [g] cs flt'"
    unfolding emits_def using ge r a f by simp
  with False show ?thesis by auto
qed

lemma processParts_emits:
  "processParts C ctx e fs ms input parts flt = Inr flt' \<Longrightarrow>
   \<exists>new cs. emits C e fs ms
     (map (Pair input) (filter (\<lambda>part. \<not> skipped (m_style flt) input part) parts))
     flt new cs flt'"
proof (induction parts arbitrary: flt)
  case Nil
  then show ?case by (auto intro: emits_refl)
next
  case (Cons part parts)
  from Cons.prems obtain flt1 where
    p: "processPart C ctx e fs ms input part flt = Inr flt1" and
    r: "processParts C ctx e fs ms input parts flt1 = Inr flt'"
    by (auto split: sum.splits)
  from processPart_emits[OF p] obtain n1 c1 where
    a: "emits C e fs ms (if skipped (m_style flt) input part then [] else [(input, part)])
          flt n1 c1 flt1" by blast
  have st: "m_style flt1 = m_style flt" using a by (rule emits_style)
  from Cons.IH[OF r] obtain n2 c2 where
    b: "emits C e fs ms
          (map (Pair input) (filter (\<lambda>part. \<not> skipped (m_style flt) input part) parts))
          flt1 n2 c2 flt'" unfolding st by blast
  have "emits C e fs ms
          ((if skipped (m_style flt) input part then [] else [(input, part)]) @
           map (Pair input) (filter (\<lambda>part. \<not> skipped (m_style flt) input part) parts))
          flt (n1 @ n2) (c1 @ c2) flt'"
    using a b by (rule emits_trans)
  moreover have "(if skipped (m_style flt) input part then [] else [(input, part)]) @
           map (Pair input) (filter (\<lambda>part. \<not> skipped (m_style flt) input part) parts) =
         map (Pair input) (filter (\<lambda>part. \<not> skipped (m_style flt) input part) (part # parts))"
    by simp
  ultimately show ?case by metis
qed

lemma processFeatures_emits:
  "processFeatures C ctx e fs ms features flt = Inr flt' \<Longrightarrow>
   \<exists>new cs. emits C e fs ms (processedParts (m_style flt) features) flt new cs flt'"
proof (induction features arbitrary: flt)
  case Nil
  then show ?case by (auto simp: processedParts_def intro: emits_refl)
next
  case (Cons input features)
  from Cons.prems obtain flt1 where
    p: "processParts C ctx e fs ms input (GeometryIterator (feat_geometry input)) flt = Inr flt1" and
    r: "processFeatures C ctx e fs ms features flt1 = Inr flt'"
    by (auto split: sum.splits)
  from processParts_emits[OF p] obtain n1 c1 where
    a: "emits C e fs ms
          (map (Pair input) (filter (\<lambda>part. \<not> skipped (m_style flt) input part)
             (GeometryIterator (feat_geometry input))))
          flt n1 c1 flt1" by blast
  have st: "m_style flt1 = m_style flt" using a by (rule emits_style)
  from Cons.IH[OF r] obtain n2 c2 where
    b: "emits C e fs ms (processedParts (m_style flt) features) flt1 n2 c2 flt'"
    unfolding st by blast
  have "emits C e fs ms
          (map (Pair input) (filter (\<lambda>part. \<not> skipped (m_style flt) input part)
             (GeometryIterator (feat_geometry input))) @
           processedParts (m_style flt) features)
          flt (n1 @ n2) (c1 @ c2) flt'"
    using a b by (rule emits_trans)
  then have "emits C e fs ms (processedParts (m_style flt) (input # features))
               flt (n1 @ n2) (c1 @ c2) flt'"
    by (simp add: processedParts_def)
  then show ?case by blast
qed

text \<open>A run of \<^verbatim>\<open>process\<close> that returns: the flag is true, and the run is recorded first.\<close>

lemma process_Inr:
  assumes "process C features ctx flt = Inr (ok, flt')"
  shows "ok \<and> (\<exists>new cs. emits C (ctx_isGeoreferenced ctx \<and> ctx_isGeocentric ctx)
                  (if ctx_isGeoreferenced ctx then Some (ctx_extentSRS ctx) else None)
                  (if ctx_isGeoreferenced ctx then Some (ctx_mapSRS ctx) else None)
                  (processedParts (m_style flt) features)
                  (flt\<lparr>calls := calls flt @ [Call_process (m_style flt) features]\<rparr>) new cs flt')"
proof -
  have m: "(if ctx_isGeoreferenced ctx then ctx_isGeocentric ctx else False) =
           (ctx_isGeoreferenced ctx \<and> ctx_isGeocentric ctx)" by simp
  from assms obtain ok: ok and
    p: "processFeatures C ctx (ctx_isGeoreferenced ctx \<and> ctx_isGeocentric ctx)
          (if ctx_isGeoreferenced ctx then Some (ctx_extentSRS ctx) else None)
          (if ctx_isGeoreferenced ctx then Some (ctx_mapSRS ctx) else None) features
          (flt\<lparr>calls := calls flt @ [Call_process (m_style flt) features]\<rparr>) = Inr flt'"
    unfolding process_def Let_def m by (auto split: sum.splits)
  from processFeatures_emits[OF p] ok show ?thesis by simp
qed

text \<open>
  The draw geometries of a run of \<^verbatim>\<open>process\<close> that returns: one for each part it does
  not skip, in order, each the geometry of its own part.
\<close>

lemma process_emitted:
  assumes "process C features ctx flt = Inr (ok, flt')"
  shows "\<exists>new. geode_drawables flt' = geode_drawables flt @ new \<and>
           (\<forall>geode. m_geode flt = Some geode \<longrightarrow>
              m_geode flt' = Some (geode\<lparr>drawables := drawables geode @ new\<rparr>)) \<and>
           list_all2 (\<lambda>p g. emittedGeometry C ctx flt (fst p) (snd p) = Inr g)
             (processedParts (m_style flt) features) new"
proof -
  let ?f = "flt\<lparr>calls := calls flt @ [Call_process (m_style flt) features]\<rparr>"
  from process_Inr[OF assms] obtain new cs where
    e: "emits C (ctx_isGeoreferenced ctx \<and> ctx_isGeocentric ctx)
          (if ctx_isGeoreferenced ctx then Some (ctx_extentSRS ctx) else None)
          (if ctx_isGeoreferenced ctx then Some (ctx_mapSRS ctx) else None)
          (processedParts (m_style flt) features) ?f new cs flt'" by blast
  have d: "geode_drawables flt' = geode_drawables flt @ new"
    using emits_drawables[OF e] by (simp add: geode_drawables_def)
  have g: "\<forall>geode. m_geode flt = Some geode \<longrightarrow>
              m_geode flt' = Some (geode\<lparr>drawables := drawables geode @ new\<rparr>)"
    using e by (auto simp: emits_def split: option.splits)
  have pg: "\<And>e fs ms input part. partGeometry C ?f e fs ms input part =
              partGeometry C flt e fs ms input part"
    by (rule partGeometry_cong) simp_all
  have l: "list_all2 (\<lambda>p g. emittedGeometry C ctx flt (fst p) (snd p) = Inr g)
             (processedParts (m_style flt) features) new"
    using e by (simp add: emits_def pg emittedGeometry_def)
  from d g l show ?thesis by blast
qed

subsection \<open>Unfolding for the concrete runs\<close>

lemmas sample_defs =
  sampleCollab_def geocentricContext_def flatContext_def black_def green_def red_def
  pixelLine_def worldLine_def noStyle_def fillAndOutline_def fillOnly_def outlineOnly_def
  ribbonOnly_def feat_def triangle_def smallTriangle_def degenerate_def segment_def

lemmas model_defs =
  new_BuildGeometryFilter_def reset_def identity_matrix_def new_Geode_def new_Geometry_def
  process_def processPart_def myStyle_of_def resolveRenderType_def belowMinimum_def
  primaryColor_def buildGeometry_def buildPolygon_def buildLineOrPoint_def subdivide_def
  disableTess_def assignColor_def transformAndLocalize_def geom_size_def primMode_def
  geode_drawables_def DegreesToRadians_def osg_PI_def Let_def

lemmas pp_defs =
  new_BuildGeometryFilter_def reset_def identity_matrix_def new_Geode_def new_Geometry_def
  processPart_def myStyle_of_def resolveRenderType_def belowMinimum_def
  primaryColor_def buildGeometry_def buildPolygon_def buildLineOrPoint_def subdivide_def
  disableTess_def assignColor_def transformAndLocalize_def geom_size_def primMode_def
  Let_def

lemmas push_defs =
  push_def push_passes_def remove_LineSymbol_def remove_PolygonSymbol_def style_empty_def
  applyGeodeState_def width_value_def delocalize_def result_drawables_def

subsection \<open>Render-type resolution\<close>

text \<open>
  Claim C1. For every leaf part, the render type that \<^verbatim>\<open>process\<close> resolves from the
  style in force (the feature's own style, else the filter's) is the one the spec's
  priority table gives, first match wins: POLYGON when a polygon symbol is present,
  the part is not a point set and its total point count is at least 3; else, with a
  line symbol, RING for a polygon part and the part's own type otherwise; else, with
  a point symbol, POINTSET; else the part's own type. After resolution, a part whose
  render type is POLYGON with fewer than 3 points of its own, or LINESTRING or RING
  with fewer than 2, is skipped: the loop body returns the filter unchanged.
\<close>

theorem C1_render_type_priority:
  "resolveRenderType (myStyle_of flt input) part =
     spec_renderType (polygonSymbol (myStyle_of flt input) \<noteq> None)
       (lineSymbol (myStyle_of flt input) \<noteq> None)
       (pointSymbol (myStyle_of flt input) \<noteq> None)
       (getType part) (getTotalPointCount part) \<and>
   ((resolveRenderType (myStyle_of flt input) part = TYPE_POLYGON \<and> geom_size part < 3) \<or>
    ((resolveRenderType (myStyle_of flt input) part = TYPE_LINESTRING \<or>
      resolveRenderType (myStyle_of flt input) part = TYPE_RING) \<and> geom_size part < 2)
    \<longrightarrow> processPart C ctx makeECEF featureSRS mapSRS input part flt = Inr flt)"
  by (auto simp: resolveRenderType_def spec_renderType_def processPart_def belowMinimum_def)

text \<open>
  A polygon whose outer ring has 2 points and whose hole has 3: the total of 5
  resolves it to POLYGON, and its own 2 points make it skipped.
\<close>

theorem C1_render_type_priority_witness:
  "resolveRenderType (myStyle_of (new_BuildGeometryFilter fillAndOutline) (feat (Polygon segment [triangle])))
     (Polygon segment [triangle]) = TYPE_POLYGON \<and>
   getTotalPointCount (Polygon segment [triangle]) = 5 \<and>
   geom_size (Polygon segment [triangle]) = 2 \<and>
   processPart sampleCollab geocentricContext True None None (feat (Polygon segment [triangle]))
     (Polygon segment [triangle]) (new_BuildGeometryFilter fillAndOutline) =
     Inr (new_BuildGeometryFilter fillAndOutline)"
  using C1_render_type_priority[of "new_BuildGeometryFilter fillAndOutline"
      "feat (Polygon segment [triangle])" "Polygon segment [triangle]" sampleCollab
      geocentricContext True None None]
  by (simp add: spec_renderType_def myStyle_of_def feat_def fillAndOutline_def noStyle_def
      new_BuildGeometryFilter_def reset_def segment_def triangle_def geom_size_def)

subsection \<open>Colors\<close>

text \<open>
  Claim C9. A run of \<^verbatim>\<open>process\<close> that returns adds to the geode exactly one draw geometry
  for each part it does not skip, in the order of the run, and the draw geometry of a
  part has a vertex array and a color array of the same length, bound per vertex,
  whose every entry is the primary color of the style in force for the feature that
  part belongs to (the feature's own style if set, else the filter's). The primary
  color is the polygon symbol's fill color if there is a polygon symbol, else the
  line symbol's stroke color, else the point symbol's fill color, else opaque white.
\<close>

theorem C9_per_vertex_primary_color:
  "(process C features ctx flt = Inr (ok, flt') \<longrightarrow>
      (\<exists>new. geode_drawables flt' = geode_drawables flt @ new \<and>
         list_all2
           (\<lambda>p g. \<exists>verts.
              dg_vertexArray g = Some verts \<and>
              dg_colorArray g =
                Some (replicate (length verts) (primaryColor (myStyle_of flt (fst p)))) \<and>
              dg_colorBinding g = BIND_PER_VERTEX)
           (processedParts (m_style flt) features) new)) \<and>
   (polygonSymbol s = Some polySym \<longrightarrow> primaryColor s = polygon_fill_color polySym) \<and>
   (polygonSymbol s = None \<and> lineSymbol s = Some lineSym \<longrightarrow>
      primaryColor s = stroke_color (line_stroke lineSym)) \<and>
   (polygonSymbol s = None \<and> lineSymbol s = None \<and> pointSymbol s = Some pointSym \<longrightarrow>
      primaryColor s = point_fill_color pointSym) \<and>
   (polygonSymbol s = None \<and> lineSymbol s = None \<and> pointSymbol s = None \<longrightarrow>
      primaryColor s = Vec4f 1 1 1 1)"
proof -
  have a: "process C features ctx flt = Inr (ok, flt') \<longrightarrow>
      (\<exists>new. geode_drawables flt' = geode_drawables flt @ new \<and>
         list_all2
           (\<lambda>p g. \<exists>verts.
              dg_vertexArray g = Some verts \<and>
              dg_colorArray g =
                Some (replicate (length verts) (primaryColor (myStyle_of flt (fst p)))) \<and>
              dg_colorBinding g = BIND_PER_VERTEX)
           (processedParts (m_style flt) features) new)"
  proof
    assume "process C features ctx flt = Inr (ok, flt')"
    from process_emitted[OF this] obtain new where
      d: "geode_drawables flt' = geode_drawables flt @ new" and
      l: "list_all2 (\<lambda>p g. emittedGeometry C ctx flt (fst p) (snd p) = Inr g)
            (processedParts (m_style flt) features) new" by blast
    have "\<And>p g. emittedGeometry C ctx flt (fst p) (snd p) = Inr g \<Longrightarrow>
            \<exists>verts. dg_vertexArray g = Some verts \<and>
              dg_colorArray g =
                Some (replicate (length verts) (primaryColor (myStyle_of flt (fst p)))) \<and>
              dg_colorBinding g = BIND_PER_VERTEX"
      unfolding emittedGeometry_def partGeometry_def
      by (drule assignColor_Inr) (simp add: perVertexColored_def split: option.splits)
    with l have "list_all2
           (\<lambda>p g. \<exists>verts.
              dg_vertexArray g = Some verts \<and>
              dg_colorArray g =
                Some (replicate (length verts) (primaryColor (myStyle_of flt (fst p)))) \<and>
              dg_colorBinding g = BIND_PER_VERTEX)
           (processedParts (m_style flt) features) new"
      by (rule list_all2_mono)
    with d show "\<exists>new. geode_drawables flt' = geode_drawables flt @ new \<and>
         list_all2
           (\<lambda>p g. \<exists>verts.
              dg_vertexArray g = Some verts \<and>
              dg_colorArray g =
                Some (replicate (length verts) (primaryColor (myStyle_of flt (fst p)))) \<and>
              dg_colorBinding g = BIND_PER_VERTEX)
           (processedParts (m_style flt) features) new" by blast
  qed
  show ?thesis using a by (simp add: primaryColor_def)
qed

text \<open>
  A triangle of a feature with a red fill of its own, then a triangle with a hole
  of a feature without a style, under a filter with a green fill: three red
  colors, then six green ones.
\<close>

theorem C9_per_vertex_primary_color_witness:
  "\<exists>flt'. process sampleCollab
            [styled redFill (Polygon triangle []), feat (Polygon triangle [smallTriangle])]
            flatContext (new_BuildGeometryFilter fillOnly) = Inr (True, flt') \<and>
          processedParts fillOnly
            [styled redFill (Polygon triangle []), feat (Polygon triangle [smallTriangle])] =
            [(styled redFill (Polygon triangle []), Polygon triangle []),
             (feat (Polygon triangle [smallTriangle]), Polygon triangle [smallTriangle])] \<and>
          map dg_colorArray (geode_drawables flt') =
            [Some [red, red, red], Some [green, green, green, green, green, green]] \<and>
          (\<exists>new. geode_drawables flt' = geode_drawables (new_BuildGeometryFilter fillOnly) @ new \<and>
             list_all2
               (\<lambda>p g. \<exists>verts.
                  dg_vertexArray g = Some verts \<and>
                  dg_colorArray g =
                    Some (replicate (length verts)
                      (primaryColor (myStyle_of (new_BuildGeometryFilter fillOnly) (fst p)))) \<and>
                  dg_colorBinding g = BIND_PER_VERTEX)
               [(styled redFill (Polygon triangle []), Polygon triangle []),
                (feat (Polygon triangle [smallTriangle]), Polygon triangle [smallTriangle])] new) \<and>
          primaryColor fillOnly = green \<and> primaryColor outlineOnly = black \<and>
          primaryColor noStyle = Vec4f 1 1 1 1"
proof -
  let ?fs = "[styled redFill (Polygon triangle []), feat (Polygon triangle [smallTriangle])]"
  let ?f = "new_BuildGeometryFilter fillOnly"
  have "\<exists>flt'. process sampleCollab ?fs flatContext ?f = Inr (True, flt') \<and>
          map dg_colorArray (geode_drawables flt') =
            [Some [red, red, red], Some [green, green, green, green, green, green]]"
    by (simp add: sample_defs model_defs redFill_def styled_def)
  then obtain flt' where ev: "process sampleCollab ?fs flatContext ?f = Inr (True, flt')"
     and cols: "map dg_colorArray (geode_drawables flt') =
            [Some [red, red, red], Some [green, green, green, green, green, green]]"
    by auto
  have st: "m_style ?f = fillOnly"
    by (simp add: new_BuildGeometryFilter_def reset_def)
  have pp: "processedParts fillOnly ?fs =
            [(styled redFill (Polygon triangle []), Polygon triangle []),
             (feat (Polygon triangle [smallTriangle]), Polygon triangle [smallTriangle])]"
    by (simp add: processedParts_def skipped_def belowMinimum_def resolveRenderType_def
        geom_size_def sample_defs redFill_def styled_def)
  have p: "primaryColor fillOnly = green" "primaryColor outlineOnly = black"
          "primaryColor noStyle = Vec4f 1 1 1 1"
    by (simp_all add: sample_defs primaryColor_def)
  note t = C9_per_vertex_primary_color[of sampleCollab ?fs flatContext ?f True flt',
      THEN conjunct1, rule_format, OF ev, unfolded st pp]
  show ?thesis
    by (intro exI[of _ flt'] conjI ev pp cols t p)
qed

subsection \<open>Subdivision\<close>

lemma new_calls_append: "new_calls flt (flt\<lparr>m_geode := g, calls := calls flt @ cs\<rparr>) = cs"
  by (simp add: new_calls_def)

lemma disableTess_iff:
  "disableTess flt \<longleftrightarrow>
     (\<exists>line. lineSymbol (m_style flt) = Some line \<and> line_tessellation line = Some 0)"
  by (simp add: disableTess_def split: option.splits)

lemma subdivide_eq:
  "subdivide C flt input makeECEF rt g =
     (if makeECEF \<and> rt \<noteq> TYPE_POINTSET \<and> \<not> disableTess flt
      then (MeshSubdivider_run C (m_world2local flt) (m_local2world flt) g
              (DegreesToRadians (m_maxAngle_deg flt))
              (case feat_geoInterp input of Some i \<Rightarrow> i | None \<Rightarrow> m_geoInterp flt),
            [Call_MeshSubdivider g (DegreesToRadians (m_maxAngle_deg flt))
              (case feat_geoInterp input of Some i \<Rightarrow> i | None \<Rightarrow> m_geoInterp flt)])
      else (g, []))"
  by (simp add: subdivide_def Let_def)

text \<open>
  Claim C4. For every part that the loop body processes (it is neither empty nor below
  the minimum of its render type, and the body returns), the mesh subdivider is
  called on the draw geometry just built exactly when the frame is geocentric
  (\<open>makeECEF\<close>, which \<^verbatim>\<open>process\<close> sets to georeferenced and geocentric), the render type
  is not POINTSET, and subdivision is not suppressed; otherwise it is not called.
  The claim's active line symbol is read here as the line symbol of the filter's
  own style (source line 210), not of a feature's style override: subdivision is
  suppressed when that line symbol sets the tessellation to 0. When the subdivider
  is called, its result is the geometry that is colored and appended to the geode;
  when it is not, the built geometry is. The threshold is the maximum angle in
  radians, and the interpolation is the feature's own if set, else the filter's.
\<close>

theorem C4_subdivider_invocation:
  assumes "processPart C ctx makeECEF featureSRS mapSRS input part flt = Inr flt'"
    and "geom_size part \<noteq> 0"
    and "\<not> belowMinimum (resolveRenderType (myStyle_of flt input) part) part"
  shows "filter is_subdivider_call (new_calls flt flt') =
           (if makeECEF \<and> resolveRenderType (myStyle_of flt input) part \<noteq> TYPE_POINTSET \<and>
               \<not> (\<exists>line. lineSymbol (m_style flt) = Some line \<and> line_tessellation line = Some 0)
            then [Call_MeshSubdivider
                    (fst (buildGeometry C flt input (myStyle_of flt input) part
                       (resolveRenderType (myStyle_of flt input) part) featureSRS mapSRS makeECEF))
                    (DegreesToRadians (m_maxAngle_deg flt))
                    (case feat_geoInterp input of Some i \<Rightarrow> i | None \<Rightarrow> m_geoInterp flt)]
            else []) \<and>
         (\<exists>g. geode_drawables flt' = geode_drawables flt @ [g] \<and>
              assignColor (primaryColor (myStyle_of flt input))
                (if makeECEF \<and> resolveRenderType (myStyle_of flt input) part \<noteq> TYPE_POINTSET \<and>
                    \<not> (\<exists>line. lineSymbol (m_style flt) = Some line \<and>
                          line_tessellation line = Some 0)
                 then MeshSubdivider_run C (m_world2local flt) (m_local2world flt)
                        (fst (buildGeometry C flt input (myStyle_of flt input) part
                           (resolveRenderType (myStyle_of flt input) part)
                           featureSRS mapSRS makeECEF))
                        (DegreesToRadians (m_maxAngle_deg flt))
                        (case feat_geoInterp input of Some i \<Rightarrow> i | None \<Rightarrow> m_geoInterp flt)
                 else fst (buildGeometry C flt input (myStyle_of flt input) part
                        (resolveRenderType (myStyle_of flt input) part)
                        featureSRS mapSRS makeECEF)) = Inr g) \<and>
         DegreesToRadians (m_maxAngle_deg flt) = m_maxAngle_deg flt * osg_PI / 180 \<and>
         process C features ctx flt =
           (case processFeatures C ctx (ctx_isGeoreferenced ctx \<and> ctx_isGeocentric ctx)
                   (if ctx_isGeoreferenced ctx then Some (ctx_extentSRS ctx) else None)
                   (if ctx_isGeoreferenced ctx then Some (ctx_mapSRS ctx) else None) features
                   (flt\<lparr>calls := calls flt @ [Call_process (m_style flt) features]\<rparr>) of
              Inl err \<Rightarrow> Inl err
            | Inr f \<Rightarrow> Inr (True, f))"
proof -
  let ?rt = "resolveRenderType (myStyle_of flt input) part"
  let ?b = "buildGeometry C flt input (myStyle_of flt input) part ?rt featureSRS mapSRS makeECEF"
  let ?cond = "makeECEF \<and> ?rt \<noteq> TYPE_POINTSET \<and>
               \<not> (\<exists>line. lineSymbol (m_style flt) = Some line \<and> line_tessellation line = Some 0)"
  from processPart_built[OF assms] obtain g geode where
    col: "assignColor (primaryColor (myStyle_of flt input))
            (fst (subdivide C flt input makeECEF ?rt (fst ?b))) = Inr g" and
    ge: "m_geode flt = Some geode" and
    r: "flt' = flt\<lparr>m_geode := Some (geode\<lparr>drawables := drawables geode @ [g]\<rparr>),
                    calls := calls flt @ snd ?b @
                      snd (subdivide C flt input makeECEF ?rt (fst ?b)) @
                      (if ctx_featureIndex ctx then [Call_tagPrimitiveSets g] else [])\<rparr>"
    by blast
  have n: "new_calls flt flt' = snd ?b @ snd (subdivide C flt input makeECEF ?rt (fst ?b)) @
             (if ctx_featureIndex ctx then [Call_tagPrimitiveSets g] else [])"
    unfolding r by (rule new_calls_append)
  have a: "filter is_subdivider_call (new_calls flt flt') =
           (if ?cond
            then [Call_MeshSubdivider (fst ?b) (DegreesToRadians (m_maxAngle_deg flt))
                    (case feat_geoInterp input of Some i \<Rightarrow> i | None \<Rightarrow> m_geoInterp flt)]
            else [])"
    unfolding n by (simp add: buildGeometry_calls subdivide_eq disableTess_iff)
  have d: "geode_drawables flt' = geode_drawables flt @ [g]"
    by (simp add: r ge geode_drawables_def)
  have s: "fst (subdivide C flt input makeECEF ?rt (fst ?b)) =
           (if ?cond
            then MeshSubdivider_run C (m_world2local flt) (m_local2world flt) (fst ?b)
                   (DegreesToRadians (m_maxAngle_deg flt))
                   (case feat_geoInterp input of Some i \<Rightarrow> i | None \<Rightarrow> m_geoInterp flt)
            else fst ?b)"
    by (auto simp: subdivide_eq disableTess_iff)
  have e: "\<exists>g. geode_drawables flt' = geode_drawables flt @ [g] \<and>
              assignColor (primaryColor (myStyle_of flt input))
                (if ?cond
                 then MeshSubdivider_run C (m_world2local flt) (m_local2world flt) (fst ?b)
                        (DegreesToRadians (m_maxAngle_deg flt))
                        (case feat_geoInterp input of Some i \<Rightarrow> i | None \<Rightarrow> m_geoInterp flt)
                 else fst ?b) = Inr g"
    using d col unfolding s by blast
  have b: "DegreesToRadians (m_maxAngle_deg flt) = m_maxAngle_deg flt * osg_PI / 180"
    by (simp add: DegreesToRadians_def)
  have c: "process C features ctx flt =
           (case processFeatures C ctx (ctx_isGeoreferenced ctx \<and> ctx_isGeocentric ctx)
                   (if ctx_isGeoreferenced ctx then Some (ctx_extentSRS ctx) else None)
                   (if ctx_isGeoreferenced ctx then Some (ctx_mapSRS ctx) else None) features
                   (flt\<lparr>calls := calls flt @ [Call_process (m_style flt) features]\<rparr>) of
              Inl err \<Rightarrow> Inl err
            | Inr f \<Rightarrow> Inr (True, f))"
    by (simp add: process_def Let_def)
  from a e b c show ?thesis by (intro conjI)
qed

text \<open>
  A two-point line string on a geocentric map, with a pixel-width line symbol and a
  subdivider that inserts the midpoint of a two-point geometry: the subdivider is
  called once, and the emitted geometry has the three points it returned.
\<close>

theorem C4_subdivider_invocation_witness:
  "\<exists>flt'. processPart midpointCollab geocentricContext True (Some ''wgs84'') (Some ''wgs84'')
            (feat (LineString segment)) (LineString segment)
            (new_BuildGeometryFilter outlineOnly) = Inr flt' \<and>
          geom_size (LineString segment) \<noteq> 0 \<and>
          \<not> belowMinimum (resolveRenderType
               (myStyle_of (new_BuildGeometryFilter outlineOnly) (feat (LineString segment)))
               (LineString segment)) (LineString segment) \<and>
          filter is_subdivider_call (new_calls (new_BuildGeometryFilter outlineOnly) flt') =
            [Call_MeshSubdivider
               (fst (buildGeometry midpointCollab (new_BuildGeometryFilter outlineOnly)
                  (feat (LineString segment)) outlineOnly (LineString segment) TYPE_LINESTRING
                  (Some ''wgs84'') (Some ''wgs84'') True))
               (DegreesToRadians 1) GEOINTERP_RHUMB_LINE] \<and>
          map dg_vertexArray (geode_drawables flt') =
            [Some [Vec3 0 0 0, Vec3 5 0 0, Vec3 10 0 0]] \<and>
          map dg_colorArray (geode_drawables flt') = [Some [black, black, black]]"
proof -
  let ?f = "new_BuildGeometryFilter outlineOnly"
  have "\<exists>flt'. processPart midpointCollab geocentricContext True (Some ''wgs84'') (Some ''wgs84'')
            (feat (LineString segment)) (LineString segment) ?f = Inr flt' \<and>
          map dg_vertexArray (geode_drawables flt') =
            [Some [Vec3 0 0 0, Vec3 5 0 0, Vec3 10 0 0]] \<and>
          map dg_colorArray (geode_drawables flt') = [Some [black, black, black]]"
    by (simp add: sample_defs pp_defs midpointCollab_def midpoint_def geode_drawables_def)
  then obtain flt' where ev: "processPart midpointCollab geocentricContext True (Some ''wgs84'')
      (Some ''wgs84'') (feat (LineString segment)) (LineString segment) ?f = Inr flt'"
    and va: "map dg_vertexArray (geode_drawables flt') =
            [Some [Vec3 0 0 0, Vec3 5 0 0, Vec3 10 0 0]]"
    and ca: "map dg_colorArray (geode_drawables flt') = [Some [black, black, black]]"
    by auto
  have ne: "geom_size (LineString segment) \<noteq> 0"
    by (simp add: geom_size_def segment_def)
  have my: "myStyle_of ?f (feat (LineString segment)) = outlineOnly"
    by (simp add: myStyle_of_def feat_def new_BuildGeometryFilter_def reset_def)
  have rt: "resolveRenderType outlineOnly (LineString segment) = TYPE_LINESTRING"
    by (simp add: resolveRenderType_def sample_defs)
  have nb: "\<not> belowMinimum (resolveRenderType (myStyle_of ?f (feat (LineString segment)))
               (LineString segment)) (LineString segment)"
    unfolding my rt by (simp add: belowMinimum_def geom_size_def segment_def)
  have st: "lineSymbol (m_style ?f) = Some pixelLine"
    by (simp add: new_BuildGeometryFilter_def reset_def outlineOnly_def noStyle_def)
  have ma: "m_maxAngle_deg ?f = 1" "m_geoInterp ?f = GEOINTERP_RHUMB_LINE"
    by (simp_all add: new_BuildGeometryFilter_def reset_def)
  have fi: "feat_geoInterp (feat (LineString segment)) = None"
    by (simp add: feat_def)
  have tl: "line_tessellation pixelLine = None" by (simp add: pixelLine_def)
  note t = C4_subdivider_invocation[OF ev ne nb, THEN conjunct1]
  have c: "filter is_subdivider_call (new_calls ?f flt') =
            [Call_MeshSubdivider
               (fst (buildGeometry midpointCollab ?f
                  (feat (LineString segment)) outlineOnly (LineString segment) TYPE_LINESTRING
                  (Some ''wgs84'') (Some ''wgs84'') True))
               (DegreesToRadians 1) GEOINTERP_RHUMB_LINE]"
    using t unfolding my rt st ma fi by (simp add: tl)
  show ?thesis
    by (intro exI[of _ flt'] conjI ev ne nb c va ca)
qed

subsection \<open>The polygon builder\<close>

lemma spec_hole_loops_Nil: "spec_hole_loops n [] = []"
  by (simp add: spec_hole_loops_def)

lemma spec_hole_loops_Cons:
  "spec_hole_loops n (h # hs) =
     DrawArrays GL_LINE_LOOP n (geom_size h) # spec_hole_loops (n + geom_size h) hs"
proof -
  have "[0..<length (h # hs)] = 0 # map Suc [0..<length hs]"
    by (simp add: upt_conv_Cons map_Suc_upt del: upt_Suc)
  then show ?thesis
    by (simp add: spec_hole_loops_def comp_def add.assoc del: upt_Suc)
qed

text \<open>The loop over the holes, in closed form.\<close>

lemma buildPolygon_holes_eq:
  "buildPolygon_holes C fs ms w2l e hs (pts, g, off) =
     (pts @ concat (map (\<lambda>h. map (transformPoint C fs ms w2l e) (asVector h))
                      (filter (isValid C) hs)),
      g\<lparr>dg_primitiveSets := dg_primitiveSets g @ spec_hole_loops off (filter (isValid C) hs)\<rparr>,
      off + sum_list (map geom_size (filter (isValid C) hs)))"
proof (induction hs arbitrary: pts g off)
  case Nil
  then show ?case by (simp add: spec_hole_loops_Nil)
next
  case (Cons h hs)
  show ?case
  proof (cases "isValid C h")
    case True
    then show ?thesis
      by (simp add: Cons.IH spec_hole_loops_Cons transformAndLocalize_def add.assoc)
  next
    case False
    then show ?thesis by (simp add: Cons.IH)
  qed
qed

lemma getHoles_not_polygon: "getType ring \<noteq> TYPE_POLYGON \<Longrightarrow> getHoles ring = []"
  by (cases ring) simp_all

text \<open>
  Claim C6. For a ring the validator accepts, \<^verbatim>\<open>buildPolygon\<close> binds a fresh vertex array
  that holds the outer ring's transformed points followed by those of each accepted
  hole in order, and adds a line loop over \<open>[0, n_outer)\<close> and, for each accepted hole,
  a line loop that starts at the sum of the sizes of the outer ring and of the holes
  accepted before it and spans the hole's size. When tessellation is requested the
  tessellator is called on that geometry with the GEOMETRY type and the POSITIVE
  winding, and its result replaces the geometry.
\<close>

theorem C6_buildPolygon_loops:
  assumes "isValid C ring"
  shows "let accepted = filter (isValid C) (getHoles ring);
             xf = transformPoint C featureSRS mapSRS (m_world2local flt) makeECEF;
             built = osgGeom
               \<lparr>dg_primitiveSets :=
                  dg_primitiveSets osgGeom @
                  DrawArrays GL_LINE_LOOP 0 (geom_size ring) #
                  spec_hole_loops (geom_size ring) accepted,
                dg_vertexArray :=
                  Some (map xf (asVector ring) @ concat (map (\<lambda>h. map xf (asVector h)) accepted))\<rparr>
         in buildPolygon C flt ring featureSRS mapSRS makeECEF tessellate osgGeom =
              (if tessellate
               then (retessellatePolygons C TESS_TYPE_GEOMETRY TESS_WINDING_POSITIVE built,
                     [Call_Tessellator TESS_TYPE_GEOMETRY TESS_WINDING_POSITIVE built])
               else (built, []))"
proof (cases "getType ring = TYPE_POLYGON")
  case True
  with assms show ?thesis
    by (simp add: buildPolygon_def Let_def buildPolygon_holes_eq transformAndLocalize_def)
next
  case False
  with assms show ?thesis
    by (simp add: buildPolygon_def Let_def getHoles_not_polygon spec_hole_loops_Nil
        transformAndLocalize_def)
qed

text \<open>A triangle with three holes, the second of them degenerate and so left out.\<close>

theorem C6_buildPolygon_loops_witness:
  "isValid sampleCollab (Polygon triangle [smallTriangle, degenerate, triangle]) \<and>
   buildPolygon sampleCollab (new_BuildGeometryFilter fillOnly)
     (Polygon triangle [smallTriangle, degenerate, triangle]) None None False False new_Geometry =
     (new_Geometry
        \<lparr>dg_primitiveSets :=
           [DrawArrays GL_LINE_LOOP 0 3, DrawArrays GL_LINE_LOOP 3 3, DrawArrays GL_LINE_LOOP 6 3],
         dg_vertexArray := Some (triangle @ smallTriangle @ triangle)\<rparr>, [])"
proof -
  have v: "isValid sampleCollab (Polygon triangle [smallTriangle, degenerate, triangle])"
    by (simp add: sample_defs)
  have a: "filter (isValid sampleCollab)
             (getHoles (Polygon triangle [smallTriangle, degenerate, triangle])) =
           [Ring smallTriangle, Ring triangle]"
    by (simp add: sample_defs)
  have l: "spec_hole_loops 3 [Ring smallTriangle, Ring triangle] =
             [DrawArrays GL_LINE_LOOP 3 3, DrawArrays GL_LINE_LOOP 6 3]"
    by (simp add: spec_hole_loops_Cons spec_hole_loops_Nil geom_size_def triangle_def
        smallTriangle_def)
  have n: "geom_size (Polygon triangle [smallTriangle, degenerate, triangle]) = 3"
    by (simp add: geom_size_def triangle_def)
  have x: "transformPoint sampleCollab None None
             (m_world2local (new_BuildGeometryFilter fillOnly)) False = (\<lambda>p. p)"
    by (simp add: sampleCollab_def)
  have p: "dg_primitiveSets new_Geometry = []"
    by (simp add: new_Geometry_def)
  from C6_buildPolygon_loops[OF v, where flt = "new_BuildGeometryFilter fillOnly"
      and featureSRS = None and mapSRS = None and makeECEF = False and tessellate = False
      and osgGeom = new_Geometry]
  have "buildPolygon sampleCollab (new_BuildGeometryFilter fillOnly)
     (Polygon triangle [smallTriangle, degenerate, triangle]) None None False False new_Geometry =
     (new_Geometry
        \<lparr>dg_primitiveSets :=
           [DrawArrays GL_LINE_LOOP 0 3, DrawArrays GL_LINE_LOOP 3 3, DrawArrays GL_LINE_LOOP 6 3],
         dg_vertexArray := Some (triangle @ smallTriangle @ triangle)\<rparr>, [])"
    unfolding Let_def a l n x p by simp
  with v show ?thesis by simp
qed

subsection \<open>The line and point builder\<close>

text \<open>
  Claim C7. For a part whose render type is not POLYGON, the geometry build does one of
  two things. If the style in force has a line symbol whose width units are not
  pixels, the stroke polygonizer is called on the transformed points and its output
  is the draw geometry (with the bound of a single point set on it in that special
  case): the build adds no primitive of its own. Otherwise the draw geometry gets
  the transformed points and exactly one primitive, \<open>DrawArrays mode 0 n\<close> over all
  \<open>n\<close> points, and the line and point symbols of the style are applied as render
  state. The mode is LINE_STRIP for LINESTRING, LINE_LOOP for RING and POINTS for
  POINTSET.
\<close>

theorem C7_line_or_point_build:
  assumes "renderType \<noteq> TYPE_POLYGON"
  shows "let allPoints = map (transformPoint C featureSRS mapSRS (m_world2local flt) makeECEF)
                           (asVector part);
             r = buildGeometry C flt input myStyle part renderType featureSRS mapSRS makeECEF
         in (\<forall>lineSym. lineSymbol myStyle = Some lineSym \<and>
                 stroke_widthUnits (line_stroke lineSym) \<noteq> PIXELS \<longrightarrow>
               snd r = [Call_PolygonizeLines (line_stroke lineSym) allPoints] \<and>
               fst r = (if primMode renderType = GL_POINTS \<and> length allPoints = 1
                        then (PolygonizeLinesOperator C (line_stroke lineSym) allPoints)
                               \<lparr>dg_initialBound :=
                                  Some (Vec3_sub (hd allPoints) (Vec3 0.5 0.5 0.5),
                                        Vec3_add (hd allPoints) (Vec3 0.5 0.5 0.5))\<rparr>
                        else PolygonizeLinesOperator C (line_stroke lineSym) allPoints)) \<and>
            (\<not> (\<exists>lineSym. lineSymbol myStyle = Some lineSym \<and>
                   stroke_widthUnits (line_stroke lineSym) \<noteq> PIXELS) \<longrightarrow>
               snd r = [] \<and>
               dg_primitiveSets (fst r) = [DrawArrays (primMode renderType) 0 (geom_size part)] \<and>
               dg_vertexArray (fst r) = Some allPoints \<and>
               dg_lineSymbology (fst r) = lineSymbol myStyle \<and>
               dg_pointSymbology (fst r) = pointSymbol myStyle) \<and>
            primMode TYPE_LINESTRING = GL_LINE_STRIP \<and>
            primMode TYPE_RING = GL_LINE_LOOP \<and>
            primMode TYPE_POINTSET = GL_POINTS"
  using assms
  by (auto simp: buildGeometry_def buildLineOrPoint_def Let_def transformAndLocalize_def
      new_Geometry_def primMode_def geom_size_def split: option.splits)


text \<open>A two-point line string, once with a pixel-width and once with a world-width stroke.\<close>

theorem C7_line_or_point_build_witness:
  "TYPE_LINESTRING \<noteq> TYPE_POLYGON \<and>
   dg_primitiveSets (fst (buildGeometry sampleCollab (new_BuildGeometryFilter outlineOnly)
      (feat (LineString segment)) outlineOnly (LineString segment) TYPE_LINESTRING
      None None False)) = [DrawArrays GL_LINE_STRIP 0 2] \<and>
   dg_lineSymbology (fst (buildGeometry sampleCollab (new_BuildGeometryFilter outlineOnly)
      (feat (LineString segment)) outlineOnly (LineString segment) TYPE_LINESTRING
      None None False)) = Some pixelLine \<and>
   buildGeometry sampleCollab (new_BuildGeometryFilter ribbonOnly)
      (feat (LineString segment)) ribbonOnly (LineString segment) TYPE_LINESTRING
      None None False =
     (PolygonizeLinesOperator sampleCollab (line_stroke worldLine) segment,
      [Call_PolygonizeLines (line_stroke worldLine) segment])"
proof -
  have ne: "TYPE_LINESTRING \<noteq> TYPE_POLYGON" by simp
  have l1: "lineSymbol outlineOnly = Some pixelLine"
    and u1: "stroke_widthUnits (line_stroke pixelLine) = PIXELS"
    and l2: "lineSymbol ribbonOnly = Some worldLine"
    and u2: "stroke_widthUnits (line_stroke worldLine) = WORLD"
    by (simp_all add: outlineOnly_def ribbonOnly_def noStyle_def pixelLine_def worldLine_def)
  have n: "geom_size (LineString segment) = 2"
    and a: "asVector (LineString segment) = segment"
    and len: "length segment = 2"
    by (simp_all add: geom_size_def segment_def)
  have x: "\<And>flt. transformPoint sampleCollab None None (m_world2local flt) False = (\<lambda>p. p)"
    by (simp add: sampleCollab_def)
  have pm: "primMode TYPE_LINESTRING = GL_LINE_STRIP" by (simp add: primMode_def)
  from C7_line_or_point_build[OF ne, where C = sampleCollab
      and flt = "new_BuildGeometryFilter outlineOnly" and input = "feat (LineString segment)"
      and myStyle = outlineOnly and part = "LineString segment" and featureSRS = None
      and mapSRS = None and makeECEF = False]
  have p1: "dg_primitiveSets (fst (buildGeometry sampleCollab (new_BuildGeometryFilter outlineOnly)
      (feat (LineString segment)) outlineOnly (LineString segment) TYPE_LINESTRING
      None None False)) = [DrawArrays GL_LINE_STRIP 0 2]"
    and p2: "dg_lineSymbology (fst (buildGeometry sampleCollab (new_BuildGeometryFilter outlineOnly)
      (feat (LineString segment)) outlineOnly (LineString segment) TYPE_LINESTRING
      None None False)) = Some pixelLine"
    unfolding Let_def by (simp_all add: l1 u1 n pm)
  from C7_line_or_point_build[OF ne, where C = sampleCollab
      and flt = "new_BuildGeometryFilter ribbonOnly" and input = "feat (LineString segment)"
      and myStyle = ribbonOnly and part = "LineString segment" and featureSRS = None
      and mapSRS = None and makeECEF = False]
  have p3: "buildGeometry sampleCollab (new_BuildGeometryFilter ribbonOnly)
      (feat (LineString segment)) ribbonOnly (LineString segment) TYPE_LINESTRING
      None None False =
     (PolygonizeLinesOperator sampleCollab (line_stroke worldLine) segment,
      [Call_PolygonizeLines (line_stroke worldLine) segment])"
    unfolding Let_def x a by (simp add: l2 u2 pm len prod_eq_iff)
  from ne p1 p2 p3 show ?thesis by simp
qed

subsection \<open>The passes of push\<close>

lemma process_calls:
  assumes "process C features ctx flt = Inr (ok, flt')"
  shows "ok \<and> m_style flt' = m_style flt \<and>
         (m_geode flt \<noteq> None \<longrightarrow> m_geode flt' \<noteq> None) \<and>
         (\<exists>cs. calls flt' = calls flt @ Call_process (m_style flt) features # cs \<and>
               filter is_process_call cs = [])"
proof -
  from process_Inr[OF assms] obtain new cs where ok: ok and
    e: "emits C (ctx_isGeoreferenced ctx \<and> ctx_isGeocentric ctx)
          (if ctx_isGeoreferenced ctx then Some (ctx_extentSRS ctx) else None)
          (if ctx_isGeoreferenced ctx then Some (ctx_mapSRS ctx) else None)
          (processedParts (m_style flt) features)
          (flt\<lparr>calls := calls flt @ [Call_process (m_style flt) features]\<rparr>)
          new cs flt'" by blast
  have s: "m_style flt' = m_style flt" using emits_style[OF e] by simp
  have c: "calls flt' = calls flt @ Call_process (m_style flt) features # cs"
    using emits_calls[OF e] by simp
  have f: "filter is_process_call cs = []" using e by (simp add: emits_def)
  have g: "m_geode flt \<noteq> None \<longrightarrow> m_geode flt' \<noteq> None"
    using e by (auto simp: emits_def split: option.splits)
  from ok s c f g show ?thesis by blast
qed

lemma push_passes_Inr:
  assumes "push_passes C input ctx flt = Inr (ok, flt')"
  shows "ok \<and>
         (m_geode flt \<noteq> None \<longrightarrow> m_geode flt' \<noteq> None) \<and>
         m_style flt' =
           (if polygonSymbol (m_style flt) \<noteq> None \<and> lineSymbol (m_style flt) \<noteq> None
            then remove_PolygonSymbol (m_style flt) else m_style flt) \<and>
         filter is_process_call (new_calls flt flt') =
           (if polygonSymbol (m_style flt) \<noteq> None \<and> lineSymbol (m_style flt) \<noteq> None
            then [Call_process (remove_LineSymbol (m_style flt)) input,
                  Call_process (remove_PolygonSymbol (m_style flt)) input]
            else [Call_process (m_style flt) input])"
proof (cases "polygonSymbol (m_style flt) \<noteq> None \<and> lineSymbol (m_style flt) \<noteq> None")
  case False
  then have p: "process C input ctx flt = Inr (ok, flt')"
    using assms by (auto simp: push_passes_def)
  from process_calls[OF p] obtain cs where ok and "m_style flt' = m_style flt"
    and "m_geode flt \<noteq> None \<longrightarrow> m_geode flt' \<noteq> None"
    and "calls flt' = calls flt @ Call_process (m_style flt) input # cs"
    and "filter is_process_call cs = []" by blast
  with False show ?thesis by (auto simp: new_calls_def)
next
  case True
  let ?st = "m_style flt"
  from True assms obtain ok1 flt1 flt3 where
    p1: "process C input ctx (flt\<lparr>m_style := remove_LineSymbol ?st\<rparr>) = Inr (ok1, flt1)" and
    p2: "process C input ctx (flt1\<lparr>m_style := remove_PolygonSymbol ?st\<rparr>) = Inr (ok, flt3)" and
    r: "flt' = flt3\<lparr>m_style := remove_PolygonSymbol ?st\<rparr>"
    by (auto simp: push_passes_def Let_def split: sum.splits)
  from process_calls[OF p1] obtain cs1 where
    g1: "m_geode flt \<noteq> None \<longrightarrow> m_geode flt1 \<noteq> None" and
    c1: "calls flt1 = calls flt @ Call_process (remove_LineSymbol ?st) input # cs1" and
    f1: "filter is_process_call cs1 = []" by auto
  from process_calls[OF p2] obtain cs2 where ok: ok and
    g2: "m_geode flt1 \<noteq> None \<longrightarrow> m_geode flt3 \<noteq> None" and
    c2: "calls flt3 = calls flt1 @ Call_process (remove_PolygonSymbol ?st) input # cs2" and
    f2: "filter is_process_call cs2 = []" by auto
  have "new_calls flt flt' = Call_process (remove_LineSymbol ?st) input # cs1 @
          Call_process (remove_PolygonSymbol ?st) input # cs2"
    by (simp add: new_calls_def r c2 c1)
  then have "filter is_process_call (new_calls flt flt') =
          [Call_process (remove_LineSymbol ?st) input,
           Call_process (remove_PolygonSymbol ?st) input]"
    by (simp add: f1 f2)
  moreover have "m_style flt' = remove_PolygonSymbol ?st" by (simp add: r)
  moreover have "m_geode flt \<noteq> None \<longrightarrow> m_geode flt' \<noteq> None"
    using g1 g2 by (simp add: r)
  ultimately show ?thesis using True ok by simp
qed

text \<open>A run of \<^verbatim>\<open>push\<close> that returns.\<close>

lemma push_Inr:
  assumes "push C input ctx flt0 = Inr (r, flt')"
  shows "r \<noteq> None \<and> m_geode flt' = None \<and>
         m_style flt' =
           (if polygonSymbol (m_style flt0) \<noteq> None \<and> lineSymbol (m_style flt0) \<noteq> None
            then remove_PolygonSymbol (m_style flt0) else m_style flt0) \<and>
         filter is_process_call (new_calls flt0 flt') =
           (if polygonSymbol (m_style flt0) \<noteq> None \<and> lineSymbol (m_style flt0) \<noteq> None
            then [Call_process (remove_LineSymbol (m_style flt0)) input,
                  Call_process (remove_PolygonSymbol (m_style flt0)) input]
            else [Call_process (m_style flt0) input])"
proof -
  let ?flt = "(reset flt0)\<lparr>m_world2local := fst (computeLocalizers C ctx),
                             m_local2world := snd (computeLocalizers C ctx)\<rparr>"
  from assms obtain ok flt1 geode where
    p: "push_passes C input ctx ?flt = Inr (ok, flt1)" and
    g: "m_geode flt1 = Some geode" and
    rr: "if ok then r \<noteq> None \<and> flt' = flt1\<lparr>m_geode := None\<rparr>
         else r = None \<and> flt' = flt1\<lparr>m_geode :=
           Some (if m_featureNameExpr flt1 = None
                 then VertexCacheOptimizer C (MeshConsolidator_run C geode) else geode)\<rparr>"
    by (auto simp: push_def Let_def split: sum.splits option.splits if_splits)
  have st: "m_style ?flt = m_style flt0" and cl: "calls ?flt = calls flt0"
    by (simp_all add: reset_def)
  from push_passes_Inr[OF p] have ok: ok and
    s: "m_style flt1 =
           (if polygonSymbol (m_style flt0) \<noteq> None \<and> lineSymbol (m_style flt0) \<noteq> None
            then remove_PolygonSymbol (m_style flt0) else m_style flt0)" and
    f: "filter is_process_call (new_calls ?flt flt1) =
           (if polygonSymbol (m_style flt0) \<noteq> None \<and> lineSymbol (m_style flt0) \<noteq> None
            then [Call_process (remove_LineSymbol (m_style flt0)) input,
                  Call_process (remove_PolygonSymbol (m_style flt0)) input]
            else [Call_process (m_style flt0) input])"
    unfolding st by simp_all
  from rr ok have r: "r \<noteq> None" and e: "flt' = flt1\<lparr>m_geode := None\<rparr>" by simp_all
  have n: "new_calls flt0 flt' = new_calls ?flt flt1"
    by (simp add: new_calls_def e cl)
  show ?thesis using r s f unfolding n by (simp add: e)
qed






subsection \<open>The two passes\<close>




subsection \<open>The filter's style after push\<close>

text \<open>
  Claim C3 says that after \<^verbatim>\<open>push\<close> the filter's style is the one it held before. On the
  code it is not: the saved copy has its polygon symbol removed before it is
  assigned back (source lines 408 and 411), so whenever \<^verbatim>\<open>push\<close> returns for a style
  with both a polygon and a line symbol, the filter is left with the style without
  its polygon symbol.
\<close>

theorem C3_style_not_restored:
  assumes "push C input ctx flt0 = Inr (r, flt')"
    and "polygonSymbol (m_style flt0) \<noteq> None"
    and "lineSymbol (m_style flt0) \<noteq> None"
  shows "m_style flt' = remove_PolygonSymbol (m_style flt0) \<and>
         polygonSymbol (m_style flt') = None \<and>
         m_style flt' \<noteq> m_style flt0"
proof -
  have s: "m_style flt' = remove_PolygonSymbol (m_style flt0)"
    using push_Inr[OF assms(1)] assms(2,3) by simp
  have n: "polygonSymbol (m_style flt') = None"
    by (simp add: s remove_PolygonSymbol_def)
  from n assms(2) have "m_style flt' \<noteq> m_style flt0" by auto
  with s n show ?thesis by simp
qed

text \<open>The filter built with a fill and an outline is left with the outline only.\<close>

theorem C3_style_not_restored_witness:
  "\<exists>r flt'. push sampleCollab [feat (Polygon triangle [])] flatContext
              (new_BuildGeometryFilter fillAndOutline) = Inr (r, flt') \<and>
     m_style (new_BuildGeometryFilter fillAndOutline) = fillAndOutline \<and>
     m_style flt' = outlineOnly \<and> outlineOnly \<noteq> fillAndOutline"
proof -
  let ?f = "new_BuildGeometryFilter fillAndOutline"
  let ?p = "push sampleCollab [feat (Polygon triangle [])] flatContext ?f"
  have "\<exists>r flt'. ?p = Inr (r, flt')"
    by (simp add: sample_defs model_defs push_defs)
  then obtain r flt' where ev: "?p = Inr (r, flt')" by auto
  have st: "m_style ?f = fillAndOutline"
    by (simp add: new_BuildGeometryFilter_def reset_def)
  have s: "polygonSymbol (m_style ?f) \<noteq> None" "lineSymbol (m_style ?f) \<noteq> None"
    unfolding st by (simp_all add: fillAndOutline_def noStyle_def)
  have rm: "remove_PolygonSymbol fillAndOutline = outlineOnly"
    by (simp add: fillAndOutline_def outlineOnly_def noStyle_def remove_PolygonSymbol_def)
  note t = C3_style_not_restored[OF ev s, unfolded st rm]
  have a: "m_style flt' = outlineOnly" using t by simp
  have b: "outlineOnly \<noteq> fillAndOutline" using t by auto
  show ?thesis by (intro exI[of _ r] exI[of _ flt'] conjI ev st a b)
qed

subsection \<open>Invalid rings\<close>

lemma buildPolygon_invalid:
  "\<not> isValid C ring \<Longrightarrow> buildPolygon C flt ring fs ms e t g = (g, [])"
  by (simp add: buildPolygon_def)

text \<open>
  Claim C5 says that a polygon part whose outer ring the validator reports invalid is
  skipped and that processing goes on with the next part. On the code, a part that
  resolves to POLYGON, has at least 3 points of its own and is reported invalid is
  not skipped: \<^verbatim>\<open>buildPolygon\<close> returns without binding a vertex array, and source line
  203 reads through the null array. The run ends there, and the parts after it are
  not processed.
\<close>

theorem C5_invalid_outer_ring_null_dereference:
  assumes "resolveRenderType (myStyle_of flt input) part = TYPE_POLYGON"
    and "3 \<le> geom_size part"
    and "\<not> isValid C part"
  shows "processPart C ctx makeECEF featureSRS mapSRS input part flt = Inl NullDereference \<and>
         processParts C ctx makeECEF featureSRS mapSRS input (part # parts) flt =
           Inl NullDereference"
proof -
  have b: "\<not> belowMinimum TYPE_POLYGON part"
    using assms(2) by (simp add: belowMinimum_def)
  have a: "processPart C ctx makeECEF featureSRS mapSRS input part flt = Inl NullDereference"
    using assms b
    by (simp add: processPart_def buildGeometry_def buildPolygon_invalid new_Geometry_def
        Let_def split: option.splits)
  then show ?thesis by simp
qed

text \<open>
  A ring of three points, two of them distinct, under a fill symbol, followed by a
  valid triangle.
\<close>

theorem C5_invalid_outer_ring_null_dereference_witness:
  "resolveRenderType (myStyle_of (new_BuildGeometryFilter fillOnly) (feat (Polygon degenerate [])))
     (Polygon degenerate []) = TYPE_POLYGON \<and>
   3 \<le> geom_size (Polygon degenerate []) \<and>
   \<not> isValid sampleCollab (Polygon degenerate []) \<and>
   processParts sampleCollab flatContext False None None (feat (Polygon degenerate []))
     [Polygon degenerate [], Polygon triangle []] (new_BuildGeometryFilter fillOnly) =
     Inl NullDereference \<and>
   process sampleCollab [feat (MultiGeometry [Polygon degenerate [], Polygon triangle []])]
     flatContext (new_BuildGeometryFilter fillOnly) = Inl NullDereference"
proof -
  let ?f = "new_BuildGeometryFilter fillOnly"
  have my: "myStyle_of ?f (feat (Polygon degenerate [])) = fillOnly"
    by (simp add: myStyle_of_def feat_def new_BuildGeometryFilter_def reset_def)
  have a: "resolveRenderType (myStyle_of ?f (feat (Polygon degenerate [])))
             (Polygon degenerate []) = TYPE_POLYGON"
    unfolding my by (simp add: resolveRenderType_def fillOnly_def noStyle_def degenerate_def)
  have b: "3 \<le> geom_size (Polygon degenerate [])"
    by (simp add: geom_size_def degenerate_def)
  have c: "\<not> isValid sampleCollab (Polygon degenerate [])"
    by (simp add: sampleCollab_def degenerate_def)
  note t = C5_invalid_outer_ring_null_dereference[OF a b c, of flatContext False None None
      "[Polygon triangle []]", THEN conjunct2]
  have d: "process sampleCollab [feat (MultiGeometry [Polygon degenerate [], Polygon triangle []])]
     flatContext ?f = Inl NullDereference"
    by (simp add: sample_defs model_defs)
  from a b c t d show ?thesis by simp
qed

subsection \<open>What push returns\<close>

lemma processParts_all_skipped:
  "\<forall>p\<in>set parts. skipped (m_style flt) input p \<Longrightarrow>
   processParts C ctx e fs ms input parts flt = Inr flt"
  by (induction parts) (auto simp: processPart_def skipped_myStyle)

lemma processFeatures_all_skipped:
  "processedParts (m_style flt) features = [] \<Longrightarrow>
   processFeatures C ctx e fs ms features flt = Inr flt"
proof (induction features)
  case Nil
  then show ?case by simp
next
  case (Cons input features)
  from Cons.prems have
    a: "\<forall>p\<in>set (GeometryIterator (feat_geometry input)). skipped (m_style flt) input p" and
    b: "processedParts (m_style flt) features = []"
    by (auto simp: processedParts_def filter_empty_conv)
  show ?case by (simp add: processParts_all_skipped[OF a] Cons.IH[OF b])
qed

lemma process_all_skipped:
  "processedParts (m_style flt) features = [] \<Longrightarrow>
   process C features ctx flt =
     Inr (True, flt\<lparr>calls := calls flt @ [Call_process (m_style flt) features]\<rparr>)"
  by (simp add: process_def Let_def processFeatures_all_skipped)

lemma push_passes_all_skipped:
  assumes "\<forall>style\<in>set (passStyles (m_style flt)). processedParts style input = []"
  shows "\<exists>flt'. push_passes C input ctx flt = Inr (True, flt') \<and>
           m_geode flt' = m_geode flt \<and>
           m_featureNameExpr flt' = m_featureNameExpr flt \<and>
           m_local2world flt' = m_local2world flt \<and>
           m_style flt' =
             (if polygonSymbol (m_style flt) \<noteq> None \<and> lineSymbol (m_style flt) \<noteq> None
              then remove_PolygonSymbol (m_style flt) else m_style flt)"
proof (cases "polygonSymbol (m_style flt) \<noteq> None \<and> lineSymbol (m_style flt) \<noteq> None")
  case False
  with assms have "processedParts (m_style flt) input = []"
    by (auto simp: passStyles_def)
  from process_all_skipped[OF this] False show ?thesis
    by (auto simp: push_passes_def)
next
  case True
  with assms have a: "processedParts (remove_LineSymbol (m_style flt)) input = []"
    and b: "processedParts (remove_PolygonSymbol (m_style flt)) input = []"
    by (simp_all add: passStyles_def)
  let ?fa = "flt\<lparr>m_style := remove_LineSymbol (m_style flt)\<rparr>"
  have a': "processedParts (m_style ?fa) input = []" using a by simp
  note p1 = process_all_skipped[OF a', of C ctx]
  let ?fb = "flt\<lparr>calls := calls flt @ [Call_process (remove_LineSymbol (m_style flt)) input],
                 m_style := remove_PolygonSymbol (m_style flt)\<rparr>"
  have b': "processedParts (m_style ?fb) input = []" using b by simp
  note p2 = process_all_skipped[OF b', of C ctx]
  show ?thesis
    using True by (simp add: push_passes_def Let_def p1 p2)
qed

lemma drawables_pushFinish:
  "nameExpr \<noteq> None \<or> drawables (VertexCacheOptimizer C (MeshConsolidator_run C geode)) = [] \<Longrightarrow>
   drawables geode = [] \<Longrightarrow> drawables (pushFinish C nameExpr style geode) = []"
  by (auto simp: pushFinish_def applyGeodeState_def Let_def split: option.splits)

text \<open>
  Claim C8 says that producing no geometry is the failure path of \<^verbatim>\<open>push\<close> and that it is
  told by returning no node. A two-point polygon under a fill symbol is skipped, and
  \<^verbatim>\<open>push\<close> returns a node all the same, one with no draw geometry.
\<close>

theorem C8_push_returns_node_counterexample:
  "result_drawables (push sampleCollab [feat (Polygon segment [])] flatContext
     (new_BuildGeometryFilter fillOnly)) = Some []"
  by (simp add: sample_defs model_defs push_defs)

text \<open>
  Claim C8, amended. Whenever \<^verbatim>\<open>process\<close> returns, its flag is true: an empty part or one
  below the minimum of its render type is skipped, never answered by false. \<^verbatim>\<open>push\<close>
  returns no node only when the flag is false, so whenever \<^verbatim>\<open>push\<close> returns, it returns
  a node. For an input all of whose parts are skipped in every pass (empty, or below
  the minimum of their render type), \<^verbatim>\<open>push\<close> returns, and what it returns is the node
  that wraps the finished geode to which no draw geometry was added; that node has
  no draw geometry when feature names are requested or the consolidator and the
  optimizer leave an empty geode empty.
\<close>

theorem C8_push_returns_node:
  "(process C features ctx before = Inr (ok, after) \<longrightarrow> ok) \<and>
   (push C input ctx start = Inr (r, final) \<longrightarrow> r \<noteq> None) \<and>
   ((\<forall>style\<in>set (passStyles (m_style start)). processedParts style input = []) \<longrightarrow>
      (\<exists>flt'. push C input ctx start =
         Inr (Some (delocalize (snd (computeLocalizers C ctx))
                (pushFinish C (m_featureNameExpr start)
                   (if polygonSymbol (m_style start) \<noteq> None \<and> lineSymbol (m_style start) \<noteq> None
                    then remove_PolygonSymbol (m_style start) else m_style start)
                   new_Geode)), flt')) \<and>
      (m_featureNameExpr start \<noteq> None \<or>
       drawables (VertexCacheOptimizer C (MeshConsolidator_run C new_Geode)) = [] \<longrightarrow>
         result_drawables (push C input ctx start) = Some [])) \<and>
   (processedParts filterStyle features = [] \<longleftrightarrow>
      (\<forall>f\<in>set features. \<forall>p\<in>set (GeometryIterator (feat_geometry f)).
         geom_size p = 0 \<or>
         belowMinimum
           (resolveRenderType (case feat_style f of Some s \<Rightarrow> s | None \<Rightarrow> filterStyle) p) p))"
proof -
  have a: "process C features ctx before = Inr (ok, after) \<longrightarrow> ok"
    using process_Inr by blast
  have b: "push C input ctx start = Inr (r, final) \<longrightarrow> r \<noteq> None"
    using push_Inr by blast
  have c: "(\<forall>style\<in>set (passStyles (m_style start)). processedParts style input = []) \<longrightarrow>
      (\<exists>flt'. push C input ctx start =
         Inr (Some (delocalize (snd (computeLocalizers C ctx))
                (pushFinish C (m_featureNameExpr start)
                   (if polygonSymbol (m_style start) \<noteq> None \<and> lineSymbol (m_style start) \<noteq> None
                    then remove_PolygonSymbol (m_style start) else m_style start)
                   new_Geode)), flt')) \<and>
      (m_featureNameExpr start \<noteq> None \<or>
       drawables (VertexCacheOptimizer C (MeshConsolidator_run C new_Geode)) = [] \<longrightarrow>
         result_drawables (push C input ctx start) = Some [])"
  proof
    assume h: "\<forall>style\<in>set (passStyles (m_style start)). processedParts style input = []"
    let ?flt = "(reset start)\<lparr>m_world2local := fst (computeLocalizers C ctx),
                               m_local2world := snd (computeLocalizers C ctx)\<rparr>"
    let ?fin = "pushFinish C (m_featureNameExpr start)
                   (if polygonSymbol (m_style start) \<noteq> None \<and> lineSymbol (m_style start) \<noteq> None
                    then remove_PolygonSymbol (m_style start) else m_style start)
                   new_Geode"
    have st: "m_style ?flt = m_style start" by (simp add: reset_def)
    from h have h': "\<forall>style\<in>set (passStyles (m_style ?flt)). processedParts style input = []"
      unfolding st .
    from push_passes_all_skipped[OF h', of C ctx] obtain flt3 where
      p: "push_passes C input ctx ?flt = Inr (True, flt3)" and
      g: "m_geode flt3 = Some new_Geode" and
      fn: "m_featureNameExpr flt3 = m_featureNameExpr start" and
      lw: "m_local2world flt3 = snd (computeLocalizers C ctx)" and
      s: "m_style flt3 =
            (if polygonSymbol (m_style start) \<noteq> None \<and> lineSymbol (m_style start) \<noteq> None
             then remove_PolygonSymbol (m_style start) else m_style start)"
      unfolding st by (auto simp: reset_def)
    have e: "push C input ctx start =
               Inr (Some (delocalize (snd (computeLocalizers C ctx)) ?fin),
                    flt3\<lparr>m_geode := None\<rparr>)"
      unfolding push_def Let_def p by (simp add: g fn lw s pushFinish_def Let_def)
    have d: "m_featureNameExpr start \<noteq> None \<or>
       drawables (VertexCacheOptimizer C (MeshConsolidator_run C new_Geode)) = [] \<longrightarrow>
         result_drawables (push C input ctx start) = Some []"
    proof
      assume "m_featureNameExpr start \<noteq> None \<or>
        drawables (VertexCacheOptimizer C (MeshConsolidator_run C new_Geode)) = []"
      then have "drawables ?fin = []"
        by (rule drawables_pushFinish) (simp add: new_Geode_def)
      then show "result_drawables (push C input ctx start) = Some []"
        unfolding e by (simp add: result_drawables_def delocalize_def)
    qed
    from e d show "(\<exists>flt'. push C input ctx start =
         Inr (Some (delocalize (snd (computeLocalizers C ctx)) ?fin), flt')) \<and>
      (m_featureNameExpr start \<noteq> None \<or>
       drawables (VertexCacheOptimizer C (MeshConsolidator_run C new_Geode)) = [] \<longrightarrow>
         result_drawables (push C input ctx start) = Some [])" by blast
  qed
  have d: "processedParts filterStyle features = [] \<longleftrightarrow>
      (\<forall>f\<in>set features. \<forall>p\<in>set (GeometryIterator (feat_geometry f)).
         geom_size p = 0 \<or>
         belowMinimum
           (resolveRenderType (case feat_style f of Some s \<Rightarrow> s | None \<Rightarrow> filterStyle) p) p)"
    by (auto simp: processedParts_def skipped_def filter_empty_conv)
  from a b c d show ?thesis by (intro conjI)
qed

text \<open>
  The two-point polygon under a fill symbol: its one part is below the minimum, and
  \<^verbatim>\<open>push\<close> returns a node without draw geometry. And a run of \<^verbatim>\<open>process\<close> over a triangle.
\<close>

theorem C8_push_returns_node_witness:
  "\<exists>r final after.
     (\<forall>style\<in>set (passStyles (m_style (new_BuildGeometryFilter fillOnly))).
        processedParts style [feat (Polygon segment [])] = []) \<and>
     push sampleCollab [feat (Polygon segment [])] flatContext
       (new_BuildGeometryFilter fillOnly) = Inr (r, final) \<and> r \<noteq> None \<and>
     result_drawables (push sampleCollab [feat (Polygon segment [])] flatContext
       (new_BuildGeometryFilter fillOnly)) = Some [] \<and>
     process sampleCollab [feat (Polygon triangle [])] flatContext
       (new_BuildGeometryFilter fillOnly) = Inr (True, after)"
proof -
  let ?i = "[feat (Polygon segment [])]"
  let ?f = "new_BuildGeometryFilter fillOnly"
  have st: "m_style ?f = fillOnly" "m_featureNameExpr ?f = None"
    by (simp_all add: new_BuildGeometryFilter_def reset_def)
  have h: "\<forall>style\<in>set (passStyles (m_style ?f)). processedParts style ?i = []"
    unfolding st
    by (simp add: passStyles_def processedParts_def skipped_def belowMinimum_def
        resolveRenderType_def geom_size_def fillOnly_def noStyle_def feat_def segment_def)
  have k: "drawables (VertexCacheOptimizer sampleCollab
             (MeshConsolidator_run sampleCollab new_Geode)) = []"
    by (simp add: sampleCollab_def new_Geode_def)
  have "\<exists>ok after. process sampleCollab [feat (Polygon triangle [])] flatContext ?f =
          Inr (ok, after)"
    by (auto simp: sample_defs model_defs)
  then obtain ok after where pv: "process sampleCollab [feat (Polygon triangle [])] flatContext
       ?f = Inr (ok, after)" by auto
  note t = C8_push_returns_node[where C = sampleCollab and input = ?i and ctx = flatContext
      and start = ?f and features = "[feat (Polygon triangle [])]"
      and before = ?f and ok = ok and after = after]
  from t h obtain node flt' where ev: "push sampleCollab ?i flatContext ?f = Inr (Some node, flt')"
    by blast
  from t h k have rd: "result_drawables (push sampleCollab ?i flatContext ?f) = Some []"
    by blast
  from t pv have ok by blast
  with pv have p: "process sampleCollab [feat (Polygon triangle [])] flatContext ?f =
       Inr (True, after)" by simp
  have n: "Some node \<noteq> None" by simp
  show ?thesis
    by (intro exI[of _ "Some node"] exI[of _ flt'] exI[of _ after] conjI h ev n rd p)
qed

subsection \<open>Style overrides\<close>





end
